theory Spec2Isabelle
  imports Complex_Main "HOL-Library.List_Lexorder" "HOL-Library.Multiset"
begin

section \<open>Python values used by \<^verbatim>\<open>src/app/main.py\<close>\<close>

subsection \<open>Strings\<close>

text \<open>
  A Python \<^verbatim>\<open>str\<close> is a sequence of Unicode code points; it is modelled as a list
  of naturals, so that \<^verbatim>\<open>len\<close>, slicing, comparison and the whitespace test count
  what Python counts.  \<open>lit\<close> turns an ASCII literal of the source into such a string.
\<close>

type_synonym pystr = "nat list"

definition lit :: "string \<Rightarrow> pystr" where
  "lit s = map of_char s"

text \<open>\<^verbatim>\<open>sep.join(xs)\<close> on a list of strings.\<close>

fun join :: "pystr \<Rightarrow> pystr list \<Rightarrow> pystr" where
  "join sep [] = []"
| "join sep [x] = x"
| "join sep (x # y # ys) = x @ sep @ join sep (y # ys)"

definition nl :: pystr where
  "nl = [10]"

text \<open>
  \<^verbatim>\<open>str.isspace\<close> on one code point: the characters CPython's
  \<^verbatim>\<open>_PyUnicode_IsWhitespace\<close> accepts.  \<^verbatim>\<open>strip()\<close> and \<^verbatim>\<open>rstrip()\<close> without
  an argument remove exactly these.
\<close>

definition isspace :: "nat \<Rightarrow> bool" where
  "isspace c \<longleftrightarrow>
     (9 \<le> c \<and> c \<le> 13) \<or> (28 \<le> c \<and> c \<le> 32) \<or> c = 133 \<or> c = 160 \<or> c = 5760 \<or>
     (8192 \<le> c \<and> c \<le> 8202) \<or> c = 8232 \<or> c = 8233 \<or> c = 8239 \<or> c = 8287 \<or>
     c = 12288"

definition rstrip :: "pystr \<Rightarrow> pystr" where
  "rstrip s = rev (dropWhile isspace (rev s))"

definition strip :: "pystr \<Rightarrow> pystr" where
  "strip s = dropWhile isspace (rstrip s)"

text \<open>A string between apostrophes, as the interpreter's messages quote a name.\<close>

definition quoted :: "pystr \<Rightarrow> pystr" where
  "quoted s = [39] @ s @ [39]"

text \<open>\<^verbatim>\<open>s.rstrip("/")\<close>: trailing occurrences of one given character removed.\<close>

definition rstrip_char :: "nat \<Rightarrow> pystr \<Rightarrow> pystr" where
  "rstrip_char c s = rev (dropWhile (\<lambda>x. x = c) (rev s))"

text \<open>\<^verbatim>\<open>s.replace("\\", "/")\<close>: every backslash (92) becomes a slash (47).\<close>

definition replace_backslash :: "pystr \<Rightarrow> pystr" where
  "replace_backslash s = map (\<lambda>c. if c = 92 then 47 else c) s"

text \<open>
  \<^verbatim>\<open>str.lower()\<close>, restricted to what the extension test needs: ASCII capitals are
  mapped to small letters and every other code point is kept.  For the six members of
  \<^verbatim>\<open>IMAGE_EXTS\<close> this agrees with Python on membership: no code point outside ASCII
  lowers to a string of the letters that occur in them.
\<close>

definition lower :: "pystr \<Rightarrow> pystr" where
  "lower s = map (\<lambda>c. if 65 \<le> c \<and> c \<le> 90 then c + 32 else c) s"

text \<open>The decimal digits of a natural, as \<^verbatim>\<open>f"{idx}"\<close> prints an \<^verbatim>\<open>int\<close>.\<close>

function str_nat :: "nat \<Rightarrow> pystr" where
  "str_nat n = (if n < 10 then [48 + n] else str_nat (n div 10) @ [48 + n mod 10])"
  by pat_completeness auto
termination
  by (relation "measure id") auto

subsection \<open>Floats\<close>

text \<open>
  A \<^verbatim>\<open>float\<close> is a double (IEEE 754 binary64); it is identified with the real
  number it stands for, and \<^verbatim>\<open><\<close> on floats is the order of the reals.  The sum of
  two floats is the real sum rounded to the nearest double, a tie going to the double
  with an even significand: \<open>ulp x\<close> is the distance between neighbouring doubles at
  \<open>x\<close> (a significand of 53 bits, subnormal below \<open>2 ^ - 1022\<close>), and \<open>round_double x\<close>
  the multiple of it nearest to \<open>x\<close>.  A sum beyond the largest double, which is
  \<^verbatim>\<open>inf\<close> in Python, is rounded to a real beyond every double, so that it compares
  with a double as \<^verbatim>\<open>inf\<close> does.
\<close>

definition round_even :: "real \<Rightarrow> int" where
  "round_even q =
     (let f = \<lfloor>q\<rfloor> in
        if q - of_int f < 1 / 2 then f
        else if 1 / 2 < q - of_int f then f + 1
        else if even f then f else f + 1)"

definition ulp :: "real \<Rightarrow> real" where
  "ulp x = 2 powr (of_int (max \<lfloor>log 2 \<bar>x\<bar>\<rfloor> (- 1022)) - 52)"

definition round_double :: "real \<Rightarrow> real" where
  "round_double x = (if x = 0 then 0 else of_int (round_even (x / ulp x)) * ulp x)"

subsection \<open>Exceptions\<close>

text \<open>
  Every exception of the program is an instance of \<^verbatim>\<open>Exception\<close>: the two classes
  the source raises itself, the two the interpreter raises on a payload of the wrong
  shape, and \<open>LibraryError\<close> for whatever a library call raises (\<^verbatim>\<open>OSError\<close> from
  \<^verbatim>\<open>open\<close> and \<^verbatim>\<open>iterdir\<close>, a \<^verbatim>\<open>requests\<close> exception, a JSON decoding error, a
  Tesseract error, \<^verbatim>\<open>ValueError\<close> from \<^verbatim>\<open>relpath\<close>, \<^verbatim>\<open>UnicodeEncodeError\<close>
  from an encoder).  The argument is the text \<^verbatim>\<open>str(e)\<close> gives.
\<close>

datatype exn =
    RuntimeError pystr
  | TimeoutError pystr
  | AttributeError pystr
  | TypeError pystr
  | LibraryError pystr

fun str_exn :: "exn \<Rightarrow> pystr" where
  "str_exn (RuntimeError m) = m"
| "str_exn (TimeoutError m) = m"
| "str_exn (AttributeError m) = m"
| "str_exn (TypeError m) = m"
| "str_exn (LibraryError m) = m"

text \<open>
  An interrupt is no instance of \<^verbatim>\<open>Exception\<close>, only of \<^verbatim>\<open>BaseException\<close>:
  \<^verbatim>\<open>except Exception\<close> does not catch it.  What ends a run before its last line is
  an exception that no handler catches, or an interrupt.
\<close>

datatype interrupt = KeyboardInterrupt | SystemExit

datatype ending = Raised exn | Interrupted interrupt

subsection \<open>JSON values\<close>

text \<open>
  What \<^verbatim>\<open>r.json()\<close> returns: a \<^verbatim>\<open>dict\<close> is an association list in insertion
  order, looked up with \<open>map_of\<close>.
\<close>

datatype json =
    JNull
  | JBool bool
  | JInt int
  | JFloat real
  | JStr pystr
  | JArr "json list"
  | JObj "(pystr \<times> json) list"

fun type_name :: "json \<Rightarrow> pystr" where
  "type_name JNull = lit ''NoneType''"
| "type_name (JBool b) = lit ''bool''"
| "type_name (JInt i) = lit ''int''"
| "type_name (JFloat x) = lit ''float''"
| "type_name (JStr s) = lit ''str''"
| "type_name (JArr xs) = lit ''list''"
| "type_name (JObj kvs) = lit ''dict''"

text \<open>
  \<^verbatim>\<open>x.get(key, default)\<close>: only a \<^verbatim>\<open>dict\<close> has the method, every other value raises
  \<^verbatim>\<open>AttributeError\<close>.
\<close>

fun dict_get :: "json \<Rightarrow> pystr \<Rightarrow> json \<Rightarrow> exn + json" where
  "dict_get (JObj kvs) k d = Inr (case map_of kvs k of Some v \<Rightarrow> v | None \<Rightarrow> d)"
| "dict_get x k d =
     Inl (AttributeError (quoted (type_name x) @ lit '' object has no attribute '' @ quoted (lit ''get'')))"

text \<open>
  \<^verbatim>\<open>for x in v\<close>: a list gives its items, a \<^verbatim>\<open>dict\<close> its keys, a string its
  characters; \<^verbatim>\<open>None\<close>, a boolean and a number raise \<^verbatim>\<open>TypeError\<close>.
\<close>

fun iterate :: "json \<Rightarrow> exn + json list" where
  "iterate (JArr xs) = Inr xs"
| "iterate (JObj kvs) = Inr (map (\<lambda>kv. JStr (fst kv)) kvs)"
| "iterate (JStr s) = Inr (map (\<lambda>c. JStr [c]) s)"
| "iterate x = Inl (TypeError (quoted (type_name x) @ lit '' object is not iterable''))"

text \<open>
  \<^verbatim>\<open>"\n".join(lines)\<close> accepts strings only: the first item of another type raises
  \<^verbatim>\<open>TypeError\<close>, which names its position.
\<close>

fun str_items :: "nat \<Rightarrow> json list \<Rightarrow> exn + pystr list" where
  "str_items i [] = Inr []"
| "str_items i (JStr s # xs) =
     (case str_items (Suc i) xs of Inl e \<Rightarrow> Inl e | Inr ss \<Rightarrow> Inr (s # ss))"
| "str_items i (x # xs) =
     Inl (TypeError (lit ''sequence item '' @ str_nat i @ lit '': expected str instance, '' @
       type_name x @ lit '' found''))"

section \<open>Configuration, platform and the outside world\<close>

text \<open>
  The module-level configuration: the two environment variables, and whether
  \<^verbatim>\<open>import pytesseract\<close> succeeded (the name is the module, or \<^verbatim>\<open>None\<close>).
\<close>

record config =
  AZURE_ENDPOINT :: "pystr option"
  AZURE_KEY :: "pystr option"
  pytesseract :: bool

text \<open>
  \<^verbatim>\<open>if AZURE_ENDPOINT and AZURE_KEY\<close>: both set and not empty.  \<open>None\<close> is Python's
  \<^verbatim>\<open>None\<close>.
\<close>

definition READ_API :: "config \<Rightarrow> pystr option" where
  "READ_API cfg =
     (case (AZURE_ENDPOINT cfg, AZURE_KEY cfg) of
        (Some ep, Some ky) \<Rightarrow>
          if ep \<noteq> [] \<and> ky \<noteq> [] then Some (rstrip_char 47 ep @ lit ''/vision/v3.2/read/analyze'')
          else None
      | _ \<Rightarrow> None)"

text \<open>
  Library functions whose result depends on the interpreter and the operating system
  are parameters.  A file is identified by its name in \<^verbatim>\<open>IMAGE_FOLDER\<close>:
  \<^item> \<open>relpath n\<close> is \<^verbatim>\<open>os.path.relpath(path, OUTPUT_MD.parent)\<close>, which raises
    \<^verbatim>\<open>ValueError\<close> on Windows when the two are on different drives;
  \<^item> \<open>str_path n\<close> is \<^verbatim>\<open>str(path)\<close>;
  \<^item> \<open>normcase n\<close> is the key by which two paths of one folder compare: the name
    itself on POSIX, the lower-cased name on Windows;
  \<^item> \<open>repr_json\<close> is the text \<^verbatim>\<open>f"{rj}"\<close> gives for a decoded payload;
  \<^item> \<open>OUTPUT_MD\<close> is \<^verbatim>\<open>str(OUTPUT_MD)\<close>;
  \<^item> \<open>document_error text idx source\<close> is the exception that the construction of
    the \<^verbatim>\<open>Document\<close> of line 120 raises, if any, with the class that the imports
    of lines 18-29 find: the dataclass of lines 26-29 stores its arguments and
    raises nothing, a class that validates its fields may reject a text;
  \<^item> \<open>encode_error s\<close> is the \<^verbatim>\<open>UnicodeEncodeError\<close> that writing \<open>s\<close> to a file
    encoded as UTF-8 raises when \<open>s\<close> holds a surrogate code point (its message
    gives the position of the character after the line ends are translated, which
    depends on the platform).
\<close>

record platform =
  relpath :: "pystr \<Rightarrow> exn + pystr"
  str_path :: "pystr \<Rightarrow> pystr"
  normcase :: "pystr \<Rightarrow> pystr"
  repr_json :: "json \<Rightarrow> pystr"
  OUTPUT_MD :: pystr
  document_error :: "pystr \<Rightarrow> nat \<Rightarrow> pystr \<Rightarrow> exn option"
  encode_error :: "pystr \<Rightarrow> exn"

datatype entry_kind = RegularFile | Directory | OtherEntry

record entry =
  entry_name :: pystr
  entry_kind :: entry_kind

record response =
  status_code :: nat
  body :: pystr
  operation_location :: "pystr option"

text \<open>
  What the file system, the network, the clock and the local engine answer.  A file is
  processed once in a run, so the answers are indexed by the file's name:
  \<^item> \<open>iterdir\<close>: the entries of \<^verbatim>\<open>IMAGE_FOLDER\<close> in the order the system lists them,
    or the exception of a missing or unlistable folder;
  \<^item> \<open>open_rb n\<close>: the exception \<^verbatim>\<open>open(path, "rb")\<close> raises, if any;
  \<^item> \<open>post n\<close>: the response to the submission of the file to \<^verbatim>\<open>READ_API\<close>
    (\<^verbatim>\<open>status_code\<close>, \<^verbatim>\<open>text\<close>, the header \<^verbatim>\<open>Operation-Location\<close>), or the
    exception of the request;
  \<^item> \<open>clock n 0\<close>: the reading of \<^verbatim>\<open>time.time()\<close> from which the deadline is
    computed; \<open>clock n (Suc k)\<close>: the reading at the test of the loop before poll \<open>k\<close>;
  \<^item> \<open>get_json n k\<close>: what poll \<open>k\<close> of the operation of this file gives (polls are
    counted from 0), that is the decoded body \<^verbatim>\<open>r.json()\<close>, or the exception of the
    request or of the decoding;
  \<^item> \<open>image_open n\<close>: the exception \<^verbatim>\<open>Image.open(path)\<close> raises, if any;
  \<^item> \<open>image_to_string n\<close>: the text of the local engine, or its exception;
  \<^item> \<open>interrupted n\<close>: the interrupt that arrives while lines 95-118 run for the
    file, if one does (the user's Ctrl-C during a request or a \<^verbatim>\<open>sleep\<close>);
  \<^item> \<open>open_w\<close>: the exception that opening \<^verbatim>\<open>OUTPUT_MD\<close> for writing raises, if
    any;
  \<^item> \<open>write_fault\<close>: what ends the writing of the encoded document, if anything
    does: an exception of the operating system while the bytes are written or the
    file is closed (a full device), or an interrupt;
  \<^item> \<open>print_error\<close>: the exception \<^verbatim>\<open>print\<close> raises at line 130, if any.
  Every call returns or raises; a call that blocks for ever is not modelled.  An
  interrupt is modelled where a run spends its time, in the text of a file and in
  the writing of the document.
\<close>

record world =
  iterdir :: "exn + entry list"
  open_rb :: "pystr \<Rightarrow> exn option"
  post :: "pystr \<Rightarrow> exn + response"
  clock :: "pystr \<Rightarrow> nat \<Rightarrow> real"
  get_json :: "pystr \<Rightarrow> nat \<Rightarrow> exn + json"
  image_open :: "pystr \<Rightarrow> exn option"
  image_to_string :: "pystr \<Rightarrow> exn + pystr"
  interrupted :: "pystr \<Rightarrow> interrupt option"
  open_w :: "exn option"
  write_fault :: "ending option"
  print_error :: "exn option"

section \<open>The remote backend: \<^verbatim>\<open>azure_read_image\<close>\<close>

text \<open>The inner loop of lines 72-73, over the lines of one page.\<close>

fun line_texts :: "json list \<Rightarrow> exn + json list" where
  "line_texts [] = Inr []"
| "line_texts (line # rest) =
     (case dict_get line (lit ''text'') (JStr []) of
        Inl e \<Rightarrow> Inl e
      | Inr t \<Rightarrow> (case line_texts rest of Inl e \<Rightarrow> Inl e | Inr ts \<Rightarrow> Inr (t # ts)))"

text \<open>The outer loop of lines 71-73, over the pages of \<^verbatim>\<open>readResults\<close>.\<close>

fun page_texts :: "json list \<Rightarrow> exn + json list" where
  "page_texts [] = Inr []"
| "page_texts (page # rest) =
     (case dict_get page (lit ''lines'') (JArr []) of
        Inl e \<Rightarrow> Inl e
      | Inr ls \<Rightarrow>
          (case iterate ls of
             Inl e \<Rightarrow> Inl e
           | Inr lines \<Rightarrow>
               (case line_texts lines of
                  Inl e \<Rightarrow> Inl e
                | Inr ts \<Rightarrow>
                    (case page_texts rest of Inl e \<Rightarrow> Inl e | Inr others \<Rightarrow> Inr (ts @ others)))))"

text \<open>Lines 69-74: the branch of status \<^verbatim>\<open>"succeeded"\<close>.\<close>

definition succeeded_text :: "json \<Rightarrow> exn + pystr" where
  "succeeded_text rj =
     (case dict_get rj (lit ''analyzeResult'') (JObj []) of
        Inl e \<Rightarrow> Inl e
      | Inr ar \<Rightarrow>
          (case dict_get ar (lit ''readResults'') (JArr []) of
             Inl e \<Rightarrow> Inl e
           | Inr read_results \<Rightarrow>
               (case iterate read_results of
                  Inl e \<Rightarrow> Inl e
                | Inr pages \<Rightarrow>
                    (case page_texts pages of
                       Inl e \<Rightarrow> Inl e
                     | Inr lines \<Rightarrow>
                         (case str_items 0 lines of
                            Inl e \<Rightarrow> Inl e
                          | Inr ss \<Rightarrow> Inr (join nl ss))))))"

text \<open>
  Lines 65-76, one pass through the body of the loop, given what the poll gave:
  \<open>Some\<close> is how the function is left (a returned text or a raised exception),
  \<open>None\<close> means that the body goes on to \<^verbatim>\<open>time.sleep(0.5)\<close> and the next test.
\<close>

definition poll_once :: "platform \<Rightarrow> exn + json \<Rightarrow> (exn + pystr) option" where
  "poll_once pf r =
     (case r of
        Inl e \<Rightarrow> Some (Inl e)
      | Inr rj \<Rightarrow>
          (case dict_get rj (lit ''status'') JNull of
             Inl e \<Rightarrow> Some (Inl e)
           | Inr status \<Rightarrow>
               if status = JStr (lit ''succeeded'') then Some (succeeded_text rj)
               else if status = JStr (lit ''failed'') then
                 Some (Inl (RuntimeError (lit ''Azure Read failed: '' @ repr_json pf rj)))
               else None))"

text \<open>
  Line 63: the sum of the reading of the clock and the timeout, two floats (an
  \<^verbatim>\<open>int\<close> timeout such as the default is converted first), as float addition
  rounds it.
\<close>

definition deadline :: "world \<Rightarrow> pystr \<Rightarrow> real \<Rightarrow> real" where
  "deadline w n timeout = round_double (clock w n 0 + timeout)"

text \<open>
  Lines 64-79, with \<open>d\<close> the deadline.  The loop may run for ever (a clock that never
  reaches the deadline), so its value is an option: \<open>None\<close> is a loop that does not
  end.  The second component of the result counts the polls that were sent.
\<close>

partial_function (option) poll_loop ::
  "platform \<Rightarrow> world \<Rightarrow> pystr \<Rightarrow> real \<Rightarrow> nat \<Rightarrow> ((exn + pystr) \<times> nat) option"
where
  "poll_loop pf w n d k =
     (if clock w n (Suc k) < d then
        (case poll_once pf (get_json w n k) of
           Some r \<Rightarrow> Some (r, Suc k)
         | None \<Rightarrow> poll_loop pf w n d (Suc k))
      else Some (Inl (TimeoutError (lit ''Timed out waiting for Azure Read result'')), k))"

declare poll_loop.simps [code]

text \<open>
  Lines 51-79.  \<open>n\<close> is the name of the file, \<open>timeout\<close> the parameter (30 by
  default).  The globals \<^verbatim>\<open>READ_API\<close> and \<^verbatim>\<open>AZURE_KEY\<close> are fixed in a run and only
  passed on to the requests, whose answers the world gives.
\<close>

definition azure_read_image ::
  "platform \<Rightarrow> world \<Rightarrow> pystr \<Rightarrow> real \<Rightarrow> ((exn + pystr) \<times> nat) option"
where
  "azure_read_image pf w n timeout =
     (case open_rb w n of
        Some e \<Rightarrow> Some (Inl e, 0)
      | None \<Rightarrow>
          (case post w n of
             Inl e \<Rightarrow> Some (Inl e, 0)
           | Inr resp \<Rightarrow>
               if status_code resp \<noteq> 202 then
                 Some (Inl (RuntimeError (lit ''Azure Read API error: '' @
                   str_nat (status_code resp) @ lit '' '' @ body resp)), 0)
               else
                 (case operation_location resp of
                    None \<Rightarrow>
                      Some (Inl (RuntimeError
                        (lit ''Missing Operation-Location header from Azure response'')), 0)
                  | Some operation_url \<Rightarrow>
                      if operation_url = [] then
                        Some (Inl (RuntimeError
                          (lit ''Missing Operation-Location header from Azure response'')), 0)
                      else
                        poll_loop pf w n (deadline w n timeout) 0)))"

section \<open>The pipeline: \<^verbatim>\<open>main\<close>\<close>

subsection \<open>The file enumerator (line 85)\<close>

definition IMAGE_EXTS :: "pystr set" where
  "IMAGE_EXTS =
     {lit ''.png'', lit ''.jpg'', lit ''.jpeg'', lit ''.tiff'', lit ''.bmp'', lit ''.gif''}"

text \<open>\<^verbatim>\<open>s.rfind(c)\<close>: the index of the last occurrence of a character, if there is one.\<close>

fun rfind :: "nat \<Rightarrow> pystr \<Rightarrow> nat option" where
  "rfind c [] = None"
| "rfind c (x # xs) =
     (case rfind c xs of Some i \<Rightarrow> Some (Suc i) | None \<Rightarrow> if x = c then Some 0 else None)"

text \<open>
  \<^verbatim>\<open>Path.suffix\<close> of pathlib (Python 3.4 to 3.13), on the name of the entry: with
  \<open>i\<close> the index of the last dot (46), the suffix is \<^verbatim>\<open>name[i:]\<close> when
  \<^verbatim>\<open>0 < i < len(name) - 1\<close> and the empty string otherwise.  A name with no dot, a
  name whose only dot is its first character and a name that ends in a dot have no
  suffix.
\<close>

definition suffix :: "pystr \<Rightarrow> pystr" where
  "suffix n =
     (case rfind 46 n of
        None \<Rightarrow> []
      | Some i \<Rightarrow> if 0 < i \<and> Suc i < length n then drop i n else [])"

text \<open>
  The comprehension and \<^verbatim>\<open>sorted\<close>.  A path of the folder is identified by its name;
  the kind of the entry is never looked at.  \<^verbatim>\<open>sorted\<close> is stable, as \<open>sort_key\<close> is.
\<close>

definition files :: "platform \<Rightarrow> entry list \<Rightarrow> pystr list" where
  "files pf entries =
     sort_key (normcase pf)
       (map entry_name (filter (\<lambda>p. lower (suffix (entry_name p)) \<in> IMAGE_EXTS) entries))"

subsection \<open>The dispatch of one file (lines 95-118)\<close>

text \<open>
  The two lines of the local backend, which stand at lines 104-105 and again at
  113-114.
\<close>

definition local_ocr :: "world \<Rightarrow> pystr \<Rightarrow> exn + pystr" where
  "local_ocr w n = (case image_open w n of Some e \<Rightarrow> Inl e | None \<Rightarrow> image_to_string w n)"

text \<open>
  The value of \<^verbatim>\<open>text\<close> after line 118, when no interrupt arrives.
  \<^verbatim>\<open>except Exception\<close> catches every value of type \<open>exn\<close>.  \<open>None\<close>: the poll loop
  of the remote backend does not end.
\<close>

definition ocr_text :: "platform \<Rightarrow> config \<Rightarrow> world \<Rightarrow> pystr \<Rightarrow> pystr option" where
  "ocr_text pf cfg w n =
     (if READ_API cfg \<noteq> None then
        (case azure_read_image pf w n 30 of
           None \<Rightarrow> None
         | Some (Inr t, polls) \<Rightarrow> Some t
         | Some (Inl e_azure, polls) \<Rightarrow>
             if pytesseract cfg then
               (case local_ocr w n of
                  Inr t \<Rightarrow> Some t
                | Inl e_tess \<Rightarrow>
                    Some (lit ''_Error during OCR: Azure error: '' @ str_exn e_azure @
                      lit ''; Tesseract error: '' @ str_exn e_tess @ lit ''_''))
             else Some (lit ''_Error during OCR: Azure error: '' @ str_exn e_azure @ lit ''_''))
      else if pytesseract cfg then
        (case local_ocr w n of
           Inr t \<Rightarrow> Some t
         | Inl e \<Rightarrow> Some (lit ''_Tesseract error: '' @ str_exn e @ lit ''_''))
      else
        Some (lit ''_No OCR backend available. Set AZURE_OCR_* or install pytesseract and Tesseract executable._''))"

subsection \<open>The markdown of one page\<close>

text \<open>
  The three characters between the index and the name in the heading literal of
  line 92, as the source file has them (U+00E2, U+20AC, U+201D).
\<close>

definition dash :: pystr where
  "dash = [226, 8364, 8221]"

definition heading :: "nat \<Rightarrow> pystr \<Rightarrow> pystr" where
  "heading idx n = lit ''## Page '' @ str_nat idx @ lit '' '' @ dash @ lit '' '' @ n @ nl"

definition image_ref :: "pystr \<Rightarrow> pystr \<Rightarrow> pystr" where
  "image_ref n rel_path = lit ''!['' @ n @ lit '']('' @ rel_path @ lit '')'' @ nl"

text \<open>Three backquotes (96), the fence of a code block.\<close>

definition fence :: pystr where
  "fence = [96, 96, 96]"

text \<open>Lines 122-127: the items appended to \<^verbatim>\<open>md_lines\<close> for the text of a page.\<close>

definition text_block :: "pystr \<Rightarrow> pystr list" where
  "text_block t =
     (if strip t = [] then [lit ''_No text recognized._'' @ nl]
      else [fence @ lit ''text'', rstrip t, fence @ nl])"

subsection \<open>The loop over the files and the single write\<close>

record document =
  page_content :: pystr
  page :: nat
  source :: pystr

text \<open>The two lists \<^verbatim>\<open>main\<close> accumulates.\<close>

record locals =
  docs :: "document list"
  md_lines :: "pystr list"

text \<open>
  Lines 90-127, from index \<open>idx\<close> on.  The result is what left the loop, if anything
  did, with the lists as they were then: the exception of \<^verbatim>\<open>relpath\<close> or of the
  construction of the \<^verbatim>\<open>Document\<close>, the two calls of the loop that can raise
  outside a \<^verbatim>\<open>try\<close>, or an interrupt that arrives while the text of a file is
  worked out, which no handler of the program catches.  The heading and the image
  line of the file are appended before its text is worked out.  \<open>None\<close> when a poll
  loop does not end.
\<close>

fun for_files ::
  "platform \<Rightarrow> config \<Rightarrow> world \<Rightarrow> nat \<Rightarrow> pystr list \<Rightarrow> locals \<Rightarrow> (ending option \<times> locals) option"
where
  "for_files pf cfg w idx [] s = Some (None, s)"
| "for_files pf cfg w idx (n # rest) s =
     (case relpath pf n of
        Inl e \<Rightarrow> Some (Some (Raised e), s)
      | Inr rel \<Rightarrow>
          (case interrupted w n of
             Some i \<Rightarrow>
               Some (Some (Interrupted i),
                 s\<lparr>md_lines := md_lines s @ [heading idx n, image_ref n (replace_backslash rel)]\<rparr>)
           | None \<Rightarrow>
               (case ocr_text pf cfg w n of
                  None \<Rightarrow> None
                | Some t \<Rightarrow>
                    (case document_error pf t idx (str_path pf n) of
                       Some e \<Rightarrow>
                         Some (Some (Raised e),
                           s\<lparr>md_lines := md_lines s @
                             [heading idx n, image_ref n (replace_backslash rel)]\<rparr>)
                     | None \<Rightarrow>
                         for_files pf cfg w (Suc idx) rest
                           \<lparr>docs = docs s @
                              [\<lparr>page_content = t, page = idx, source = str_path pf n\<rparr>],
                            md_lines = md_lines s @
                              [heading idx n, image_ref n (replace_backslash rel)] @
                              text_block t\<rparr>))))"

text \<open>
  What \<^verbatim>\<open>OUTPUT_MD\<close> holds after a run: it is as it was before (\<open>Untouched\<close>); it
  was opened for writing, which empties it, and nothing was written (\<open>Emptied\<close>); it
  holds at most a part of the document (\<open>Torn\<close>); or it holds the whole text given to
  \<^verbatim>\<open>write_text\<close> (\<open>Whole\<close>; the bytes are the UTF-8 encoding of that text, with the
  line ends the platform writes).
\<close>

datatype file_state = Untouched | Emptied | Torn | Whole pystr

text \<open>
  UTF-8 encodes every code point of a \<^verbatim>\<open>str\<close> but the surrogates U+D800 to U+DFFF,
  which a \<^verbatim>\<open>str\<close> can hold (a file name that is not valid Unicode, an escape in a
  JSON body).
\<close>

definition encodable :: "pystr \<Rightarrow> bool" where
  "encodable s = list_all (\<lambda>c. c < 55296 \<or> 57343 < c) s"

text \<open>
  \<^verbatim>\<open>OUTPUT_MD.write_text(data, encoding="utf-8")\<close>, line 129: the file is opened for
  writing, which creates or empties it; the text is encoded as a whole, before any
  byte is written; the bytes are written and the file is closed.  The result is what
  ended the call, if anything did, and what the file holds then.
\<close>

definition write_text :: "platform \<Rightarrow> world \<Rightarrow> pystr \<Rightarrow> ending option \<times> file_state" where
  "write_text pf w data =
     (case open_w w of
        Some e \<Rightarrow> (Some (Raised e), Untouched)
      | None \<Rightarrow>
          if \<not> encodable data then (Some (Raised (encode_error pf data)), Emptied)
          else (case write_fault w of
                  Some a \<Rightarrow> (Some a, Torn)
                | None \<Rightarrow> (None, Whole data)))"

text \<open>
  What a run leaves behind: what ended it before its last line, if anything did; the
  lists; the texts given to \<^verbatim>\<open>OUTPUT_MD.write_text\<close>, one item for each call; what
  the output file holds; the lines printed.
\<close>

record outcome =
  raised :: "ending option"
  final :: locals
  written :: "pystr list"
  output_md :: file_state
  printed :: "pystr list"

text \<open>Lines 82-130.\<close>

definition main :: "platform \<Rightarrow> config \<Rightarrow> world \<Rightarrow> outcome option" where
  "main pf cfg w =
     (case iterdir w of
        Inl e \<Rightarrow>
          Some \<lparr>raised = Some (Raised e), final = \<lparr>docs = [], md_lines = []\<rparr>, written = [],
            output_md = Untouched, printed = []\<rparr>
      | Inr entries \<Rightarrow>
          (case for_files pf cfg w 1 (files pf entries)
                  \<lparr>docs = [], md_lines = [lit ''# OCR Output'' @ nl]\<rparr> of
             None \<Rightarrow> None
           | Some (Some a, s) \<Rightarrow>
               Some \<lparr>raised = Some a, final = s, written = [], output_md = Untouched,
                 printed = []\<rparr>
           | Some (None, s) \<Rightarrow>
               (case write_text pf w (join nl (md_lines s)) of
                  (Some a, f) \<Rightarrow>
                    Some \<lparr>raised = Some a, final = s, written = [join nl (md_lines s)],
                      output_md = f, printed = []\<rparr>
                | (None, f) \<Rightarrow>
                    (case print_error w of
                       Some e \<Rightarrow>
                         Some \<lparr>raised = Some (Raised e), final = s,
                           written = [join nl (md_lines s)], output_md = f, printed = []\<rparr>
                     | None \<Rightarrow>
                         Some \<lparr>raised = None, final = s, written = [join nl (md_lines s)],
                           output_md = f,
                           printed = [lit ''Wrote '' @ str_nat (length (files pf entries)) @
                             lit '' pages to '' @ OUTPUT_MD pf]\<rparr>))))"

section \<open>Notions the properties are stated with\<close>

subsection \<open>The poll loop\<close>

text \<open>
  A poll is in progress when it answers with a JSON object whose \<^verbatim>\<open>status\<close> is
  neither \<^verbatim>\<open>"succeeded"\<close> nor \<^verbatim>\<open>"failed"\<close>, the two terminal statuses of the
  service: any other value, or no status at all.
\<close>

fun in_progress :: "exn + json \<Rightarrow> bool" where
  "in_progress (Inr (JObj kvs)) =
     (map_of kvs (lit ''status'') \<noteq> Some (JStr (lit ''succeeded'')) \<and>
      map_of kvs (lit ''status'') \<noteq> Some (JStr (lit ''failed'')))"
| "in_progress r = False"

text \<open>
  Poll \<open>j\<close> is pending when the test before it finds the deadline \<open>d\<close> not reached
  and its answer is in progress.
\<close>

definition pending :: "world \<Rightarrow> pystr \<Rightarrow> real \<Rightarrow> nat \<Rightarrow> bool" where
  "pending w n d j \<longleftrightarrow> clock w n (Suc j) < d \<and> in_progress (get_json w n j)"

definition timed_out :: "exn + pystr" where
  "timed_out = Inl (TimeoutError (lit ''Timed out waiting for Azure Read result''))"



subsection \<open>The shape of a succeeded payload\<close>

text \<open>
  The shape \<^verbatim>\<open>analyzeResult.readResults[].lines[].text\<close> the service documents:
  \<open>result_has_pages rj pss\<close> holds when the payload \<open>rj\<close> has the pages \<open>pss\<close>, each
  page being the list of the texts of its lines.  Other keys may be present.
\<close>

fun as_list :: "json option \<Rightarrow> json list option" where
  "as_list (Some (JArr xs)) = Some xs"
| "as_list x = None"

fun as_dict :: "json option \<Rightarrow> (pystr \<times> json) list option" where
  "as_dict (Some (JObj kvs)) = Some kvs"
| "as_dict x = None"

fun line_has_text :: "json \<Rightarrow> pystr \<Rightarrow> bool" where
  "line_has_text (JObj kvs) t = (map_of kvs (lit ''text'') = Some (JStr t))"
| "line_has_text x t = False"

fun page_has_lines :: "json \<Rightarrow> pystr list \<Rightarrow> bool" where
  "page_has_lines (JObj kvs) ts =
     (case as_list (map_of kvs (lit ''lines'')) of
        Some ls \<Rightarrow> list_all2 line_has_text ls ts
      | None \<Rightarrow> False)"
| "page_has_lines x ts = False"

fun result_has_pages :: "json \<Rightarrow> pystr list list \<Rightarrow> bool" where
  "result_has_pages (JObj kvs) pss =
     (case as_dict (map_of kvs (lit ''analyzeResult'')) of
        Some ar \<Rightarrow>
          (case as_list (map_of ar (lit ''readResults'')) of
             Some ps \<Rightarrow> list_all2 page_has_lines ps pss
           | None \<Rightarrow> False)
      | None \<Rightarrow> False)"
| "result_has_pages x pss = False"

subsection \<open>The inputs of two runs\<close>

text \<open>
  Two worlds give the same backend responses for a file when opening it, submitting
  it, every poll of its operation and the local engine answer alike; they have the
  same clock for it when every reading is the same.
\<close>

definition same_answers :: "world \<Rightarrow> world \<Rightarrow> pystr \<Rightarrow> bool" where
  "same_answers w1 w2 n \<longleftrightarrow>
     open_rb w1 n = open_rb w2 n \<and> post w1 n = post w2 n \<and> get_json w1 n = get_json w2 n \<and>
     image_open w1 n = image_open w2 n \<and> image_to_string w1 n = image_to_string w2 n"

definition same_clock :: "world \<Rightarrow> world \<Rightarrow> pystr \<Rightarrow> bool" where
  "same_clock w1 w2 n \<longleftrightarrow> clock w1 n = clock w2 n"

subsection \<open>Names, extensions and numerals\<close>




section \<open>Example inputs\<close>

text \<open>Concrete inputs on which the properties below are evaluated.\<close>

subsection \<open>Platforms and configurations\<close>

text \<open>
  The \<^verbatim>\<open>UnicodeEncodeError\<close> of the UTF-8 encoder on a text with a surrogate,
  where line ends are written as they are: its message names the first run of
  surrogates, by the character (four hexadecimal digits after \<^verbatim>\<open>\u\<close>) and its
  position when the run is one character, by its first and last position otherwise.
\<close>

definition hex4 :: "nat \<Rightarrow> pystr" where
  "hex4 c =
     map (\<lambda>d. if d < 10 then 48 + d else 87 + d)
       [c div 4096 mod 16, c div 256 mod 16, c div 16 mod 16, c mod 16]"

definition utf8_error :: "pystr \<Rightarrow> exn" where
  "utf8_error s =
     (let start = length (takeWhile (\<lambda>c. c < 55296 \<or> 57343 < c) s);
          run = length (takeWhile (\<lambda>c. 55296 \<le> c \<and> c \<le> 57343) (drop start s))
      in LibraryError
           (quoted (lit ''utf-8'') @ lit '' codec can'' @ [39] @ lit ''t encode '' @
            (if run = 1 then
               lit ''character '' @ quoted ([92] @ lit ''u'' @ hex4 (s ! start)) @
               lit '' in position '' @ str_nat start
             else
               lit ''characters in position '' @ str_nat start @ lit ''-'' @
               str_nat (start + run - 1)) @
            lit '': surrogates not allowed''))"

text \<open>
  On \<open>demo_platform\<close> paths compare by their names, \<^verbatim>\<open>relpath\<close> gives a path with a
  backslash and \<^verbatim>\<open>Document\<close> is the dataclass; on \<open>two_drives\<close> the images and the output are on different drives, so
  that \<^verbatim>\<open>relpath\<close> raises.
\<close>

definition demo_platform :: platform where
  "demo_platform =
     \<lparr>relpath = (\<lambda>n. Inr (lit ''images'' @ [92] @ n)),
      str_path = (\<lambda>n. lit ''images/'' @ n),
      normcase = (\<lambda>n. n),
      repr_json = (\<lambda>rj. lit ''<payload>''),
      OUTPUT_MD = lit ''output.md'',
      document_error = (\<lambda>t idx src. None),
      encode_error = utf8_error\<rparr>"

definition two_drives :: platform where
  "two_drives =
     demo_platform\<lparr>relpath := (\<lambda>n. Inl (LibraryError (lit ''path is on mount C:, start on mount D:'')))\<rparr>"

definition cfg_remote :: config where
  "cfg_remote =
     \<lparr>AZURE_ENDPOINT = Some (lit ''https://ocr.test/''), AZURE_KEY = Some (lit ''secret''),
      pytesseract = False\<rparr>"

definition cfg_both :: config where
  "cfg_both = cfg_remote\<lparr>pytesseract := True\<rparr>"

definition cfg_local :: config where
  "cfg_local = \<lparr>AZURE_ENDPOINT = None, AZURE_KEY = None, pytesseract = True\<rparr>"

definition cfg_none :: config where
  "cfg_none = \<lparr>AZURE_ENDPOINT = None, AZURE_KEY = None, pytesseract = False\<rparr>"

subsection \<open>Payloads, responses and folders\<close>

definition running :: json where
  "running = JObj [(lit ''status'', JStr (lit ''running''))]"

definition succeeded_AB :: json where
  "succeeded_AB =
     JObj [(lit ''status'', JStr (lit ''succeeded'')),
           (lit ''analyzeResult'',
            JObj [(lit ''version'', JStr (lit ''3.2.0'')),
                  (lit ''readResults'',
                   JArr [JObj [(lit ''page'', JInt 1),
                               (lit ''angle'', JFloat 0.5),
                               (lit ''lines'',
                                JArr [JObj [(lit ''text'', JStr (lit ''A''))],
                                      JObj [(lit ''text'', JStr (lit ''B''))]])]])])]"

definition failed_payload :: json where
  "failed_payload = JObj [(lit ''status'', JStr (lit ''failed''))]"

definition accepted :: response where
  "accepted = \<lparr>status_code = 202, body = [], operation_location = Some (lit ''https://ocr.test/operations/1'')\<rparr>"

definition folder_ok :: "entry list" where
  "folder_ok =
     [\<lparr>entry_name = lit ''b.JPG'', entry_kind = RegularFile\<rparr>,
      \<lparr>entry_name = lit ''notes.txt'', entry_kind = RegularFile\<rparr>,
      \<lparr>entry_name = lit ''a.png'', entry_kind = RegularFile\<rparr>]"


text \<open>
  A folder of two images.  The name of the second holds the surrogate U+DCC9
  (56521), as the name of a file has on a POSIX system when it holds the byte
  \<^verbatim>\<open>C9\<close> where UTF-8 allows none.
\<close>

definition folder_surrogate :: "entry list" where
  "folder_surrogate =
     [\<lparr>entry_name = lit ''a.png'', entry_kind = RegularFile\<rparr>,
      \<lparr>entry_name = lit ''b'' @ [56521] @ lit ''.png'', entry_kind = RegularFile\<rparr>]"

subsection \<open>Worlds\<close>

text \<open>
  In \<open>world_ok\<close> the folder holds two images and a text file, the submission is
  accepted, the first poll finds the operation running and the second finds it
  succeeded with the lines \<^verbatim>\<open>A\<close> and \<^verbatim>\<open>B\<close> on one page; the clock advances by half a
  second between two readings; no interrupt arrives, and writing and printing do not
  fail.  The other worlds differ from it in one respect:
  \<^item> \<open>world_reversed\<close> lists the folder in the opposite order;
  \<^item> \<open>world_stalled\<close> has a clock that jumps by twenty seconds between two readings;
  \<^item> \<open>world_slow\<close> has that clock and an operation that stays running;
  \<^item> \<open>world_rounding\<close> has an operation that has succeeded at the first poll and a
    clock that reads the double \<^verbatim>\<open>0.7\<close> first and the double \<^verbatim>\<open>30.7\<close> from then on;
  \<^item> \<open>world_frozen\<close> has an operation that stays running and a clock that stands
    still, as a fake clock in a test may;
  \<^item> \<open>world_failed\<close>: the second poll finds the operation failed;
  \<^item> \<open>world_bad_json\<close>: the body of every poll is not JSON;
  \<^item> \<open>world_rejected\<close> and \<open>world_no_location\<close>: the submission is refused, or
    accepted without the header;
  \<^item> \<open>world_down\<close>: the submission cannot connect and the local engine is not
    installed;
  \<^item> \<open>world_unreadable\<close>: no entry can be opened, as a directory cannot, and
    \<open>world_odd\<close> has moreover the folder \<open>folder_odd\<close>;
  \<^item> \<open>world_missing\<close>: the folder does not exist;
  \<^item> \<open>world_interrupted\<close>: the user interrupts the run while the first file is
    with the remote backend;
  \<^item> \<open>world_surrogate\<close> has the folder \<open>folder_surrogate\<close>.
\<close>

definition world_ok :: world where
  "world_ok =
     \<lparr>iterdir = Inr folder_ok,
      open_rb = (\<lambda>n. None),
      post = (\<lambda>n. Inr accepted),
      clock = (\<lambda>n k. real k / 2),
      get_json = (\<lambda>n k. Inr (if k = 0 then running else succeeded_AB)),
      image_open = (\<lambda>n. None),
      image_to_string = (\<lambda>n. Inr (lit ''local text'')),
      interrupted = (\<lambda>n. None),
      open_w = None,
      write_fault = None,
      print_error = None\<rparr>"




definition world_rounding :: world where
  "world_rounding =
     world_ok\<lparr>clock := (\<lambda>n k. if k = 0 then 3152519739159347 / 2 ^ 52
                               else 8641281785017139 / 2 ^ 48),
       get_json := (\<lambda>n k. Inr succeeded_AB)\<rparr>"


definition world_failed :: world where
  "world_failed = world_ok\<lparr>get_json := (\<lambda>n k. Inr (if k = 0 then running else failed_payload))\<rparr>"

definition world_bad_json :: world where
  "world_bad_json =
     world_ok\<lparr>get_json := (\<lambda>n k. Inl (LibraryError (lit ''Expecting value: line 1 column 1 (char 0)'')))\<rparr>"

definition world_rejected :: world where
  "world_rejected =
     world_ok\<lparr>post := (\<lambda>n. Inr \<lparr>status_code = 401, body = lit ''denied'', operation_location = None\<rparr>)\<rparr>"

definition world_no_location :: world where
  "world_no_location =
     world_ok\<lparr>post := (\<lambda>n. Inr \<lparr>status_code = 202, body = [], operation_location = None\<rparr>)\<rparr>"

definition world_down :: world where
  "world_down =
     world_ok\<lparr>post := (\<lambda>n. Inl (LibraryError (lit ''connection refused''))),
       image_to_string := (\<lambda>n. Inl (LibraryError (lit ''tesseract is not installed'')))\<rparr>"

definition world_unreadable :: world where
  "world_unreadable =
     world_ok\<lparr>open_rb := (\<lambda>n. Some (LibraryError (lit ''[Errno 13] Permission denied''))),
       image_open := (\<lambda>n. Some (LibraryError (lit ''[Errno 13] Permission denied'')))\<rparr>"


definition world_missing :: world where
  "world_missing =
     world_ok\<lparr>iterdir := Inl (LibraryError (lit ''[Errno 2] No such file or directory''))\<rparr>"

definition world_interrupted :: world where
  "world_interrupted = world_ok\<lparr>interrupted := (\<lambda>n. Some KeyboardInterrupt)\<rparr>"

definition world_surrogate :: world where
  "world_surrogate = world_ok\<lparr>iterdir := Inr folder_surrogate\<rparr>"

subsection \<open>The outcomes of some runs\<close>

text \<open>The run in \<open>world_ok\<close> with the remote backend only.\<close>

definition lines_ok :: "pystr list" where
  "lines_ok =
     [lit ''# OCR Output'' @ nl,
      lit ''## Page 1 '' @ dash @ lit '' a.png'' @ nl,
      lit ''![a.png](images/a.png)'' @ nl,
      fence @ lit ''text'', lit ''A'' @ nl @ lit ''B'', fence @ nl,
      lit ''## Page 2 '' @ dash @ lit '' b.JPG'' @ nl,
      lit ''![b.JPG](images/b.JPG)'' @ nl,
      fence @ lit ''text'', lit ''A'' @ nl @ lit ''B'', fence @ nl]"

definition outcome_ok :: outcome where
  "outcome_ok =
     \<lparr>raised = None,
      final =
        \<lparr>docs =
           [\<lparr>page_content = lit ''A'' @ nl @ lit ''B'', page = 1, source = lit ''images/a.png''\<rparr>,
            \<lparr>page_content = lit ''A'' @ nl @ lit ''B'', page = 2, source = lit ''images/b.JPG''\<rparr>],
         md_lines = lines_ok\<rparr>,
      written = [join nl lines_ok],
      output_md = Whole (join nl lines_ok),
      printed = [lit ''Wrote 2 pages to output.md'']\<rparr>"



text \<open>
  The run in \<open>world_surrogate\<close> with the remote backend only: the document holds the
  name of the second file, it cannot be encoded, and the output file is left empty.
\<close>

definition lines_surrogate :: "pystr list" where
  "lines_surrogate =
     [lit ''# OCR Output'' @ nl,
      lit ''## Page 1 '' @ dash @ lit '' a.png'' @ nl,
      lit ''![a.png](images/a.png)'' @ nl,
      fence @ lit ''text'', lit ''A'' @ nl @ lit ''B'', fence @ nl,
      lit ''## Page 2 '' @ dash @ lit '' b'' @ [56521] @ lit ''.png'' @ nl,
      lit ''![b'' @ [56521] @ lit ''.png](images/b'' @ [56521] @ lit ''.png)'' @ nl,
      fence @ lit ''text'', lit ''A'' @ nl @ lit ''B'', fence @ nl]"

definition outcome_surrogate :: outcome where
  "outcome_surrogate =
     \<lparr>raised = Some (Raised (utf8_error (join nl lines_surrogate))),
      final =
        \<lparr>docs =
           [\<lparr>page_content = lit ''A'' @ nl @ lit ''B'', page = 1, source = lit ''images/a.png''\<rparr>,
            \<lparr>page_content = lit ''A'' @ nl @ lit ''B'', page = 2,
             source = lit ''images/b'' @ [56521] @ lit ''.png''\<rparr>],
         md_lines = lines_surrogate\<rparr>,
      written = [join nl lines_surrogate],
      output_md = Emptied,
      printed = []\<rparr>"

text \<open>The run in \<open>world_interrupted\<close>, which ends in the first file.\<close>

definition outcome_interrupted :: outcome where
  "outcome_interrupted =
     \<lparr>raised = Some (Interrupted KeyboardInterrupt),
      final =
        \<lparr>docs = [],
         md_lines =
           [lit ''# OCR Output'' @ nl,
            lit ''## Page 1 '' @ dash @ lit '' a.png'' @ nl,
            lit ''![a.png](images/a.png)'' @ nl]\<rparr>,
      written = [],
      output_md = Untouched,
      printed = []\<rparr>"

section \<open>Lemmas\<close>

subsection \<open>Float addition\<close>

lemma round_even_of_int: "round_even (of_int m) = m"
  by (simp add: round_even_def)

lemma floor_log2_30: "\<lfloor>log 2 (30::real)\<rfloor> = 4"
proof -
  have "(2::real) powr of_int 4 \<le> 30 \<and> 30 < (2::real) powr (of_int 4 + 1)"
    by (simp add: powr_numeral)
  then show ?thesis by (subst floor_log_eq_powr_iff) simp_all
qed

lemma ulp_30: "ulp 30 = 1 / 2 ^ 48"
proof -
  have "ulp 30 = 2 powr (- 48)" by (simp add: ulp_def floor_log2_30)
  also have "\<dots> = 1 / 2 powr 48" by (simp add: powr_minus divide_simps)
  also have "\<dots> = 1 / 2 ^ 48" by (simp add: powr_numeral)
  finally show ?thesis .
qed

lemma round_double_30: "round_double 30 = 30"
proof -
  have "30 / ulp 30 = of_int (30 * 2 ^ 48)" by (simp add: ulp_30)
  then have "round_even (30 / ulp 30) = 30 * 2 ^ 48" by (simp only: round_even_of_int)
  then show ?thesis by (simp add: round_double_def ulp_30)
qed

text \<open>
  The sum of the doubles \<^verbatim>\<open>0.7\<close> and \<^verbatim>\<open>30\<close> is not a double: it is rounded down,
  to the double \<^verbatim>\<open>30.7\<close>.
\<close>

lemma floor_log2_sum: "\<lfloor>log 2 (3152519739159347 / 2 ^ 52 + 30 :: real)\<rfloor> = 4"
proof -
  have "(2::real) powr of_int 4 \<le> 3152519739159347 / 2 ^ 52 + 30 \<and>
      (3152519739159347 / 2 ^ 52 + 30 :: real) < 2 powr (of_int 4 + 1)"
    by (simp add: powr_numeral)
  then show ?thesis by (subst floor_log_eq_powr_iff) simp_all
qed

lemma ulp_sum: "ulp (3152519739159347 / 2 ^ 52 + 30) = 1 / 2 ^ 48"
proof -
  have "\<bar>3152519739159347 / 2 ^ 52 + 30 :: real\<bar> = 3152519739159347 / 2 ^ 52 + 30" by simp
  then have "ulp (3152519739159347 / 2 ^ 52 + 30) = 2 powr (- 48)"
    unfolding ulp_def by (simp only: floor_log2_sum) simp
  also have "\<dots> = 1 / 2 powr 48" by (simp add: powr_minus divide_simps)
  also have "\<dots> = 1 / 2 ^ 48" by (simp add: powr_numeral)
  finally show ?thesis .
qed

lemma round_double_sum:
  "round_double (3152519739159347 / 2 ^ 52 + 30) = 8641281785017139 / 2 ^ 48"
proof -
  have q: "(3152519739159347 / 2 ^ 52 + 30) / (1 / 2 ^ 48) = (8641281785017139 + 3 / 16 :: real)"
    by simp
  have f: "\<lfloor>8641281785017139 + 3 / 16 :: real\<rfloor> = 8641281785017139"
    by (simp add: floor_eq_iff)
  have "round_even (8641281785017139 + 3 / 16) = 8641281785017139"
    unfolding round_even_def Let_def f by simp
  then show ?thesis
    unfolding round_double_def ulp_sum q by simp
qed

subsection \<open>The poll loop\<close>

lemma poll_once_None_iff: "poll_once pf r = None \<longleftrightarrow> in_progress r"
proof (cases r)
  case (Inl e)
  then show ?thesis by (simp add: poll_once_def)
next
  case (Inr rj)
  show ?thesis
  proof (cases rj)
    case (JObj kvs)
    with Inr show ?thesis
      by (cases "map_of kvs (lit ''status'')") (simp_all add: poll_once_def)
  qed (simp_all add: Inr poll_once_def)
qed

lemma pending_iff:
  "pending w n d j \<longleftrightarrow> clock w n (Suc j) < d \<and> poll_once pf (get_json w n j) = None"
  by (simp add: pending_def poll_once_None_iff)

lemma poll_loop_step:
  assumes "pending w n d k"
  shows "poll_loop pf w n d k = poll_loop pf w n d (Suc k)"
proof -
  from assms have "clock w n (Suc k) < d" and "poll_once pf (get_json w n k) = None"
    by (simp_all add: pending_iff [where pf = pf])
  then show ?thesis by (subst poll_loop.simps) simp
qed

lemma poll_loop_skip:
  "(\<And>j. j < m \<Longrightarrow> pending w n d (k + j)) \<Longrightarrow>
   poll_loop pf w n d k = poll_loop pf w n d (k + m)"
proof (induction m arbitrary: k)
  case 0
  then show ?case by simp
next
  case (Suc m)
  have "pending w n d k" using Suc.prems [of 0] by simp
  then have "poll_loop pf w n d k = poll_loop pf w n d (Suc k)"
    by (rule poll_loop_step)
  also have "\<dots> = poll_loop pf w n d (Suc k + m)"
  proof (rule Suc.IH)
    fix j assume "j < m"
    then show "pending w n d (Suc k + j)" using Suc.prems [of "Suc j"] by simp
  qed
  finally show ?case by simp
qed

lemma poll_loop_timeout:
  "\<not> clock w n (Suc k) < d \<Longrightarrow> poll_loop pf w n d k = Some (timed_out, k)"
  by (subst poll_loop.simps) (simp add: timed_out_def)

lemma poll_loop_leave:
  "clock w n (Suc k) < d \<Longrightarrow> poll_once pf (get_json w n k) = Some r \<Longrightarrow>
   poll_loop pf w n d k = Some (r, Suc k)"
  by (subst poll_loop.simps) simp





subsection \<open>The text of a succeeded payload\<close>

lemma as_list_Some: "as_list x = Some xs \<Longrightarrow> x = Some (JArr xs)"
  by (cases x rule: as_list.cases) simp_all

lemma as_dict_Some: "as_dict x = Some kvs \<Longrightarrow> x = Some (JObj kvs)"
  by (cases x rule: as_dict.cases) simp_all

lemma line_texts_shape:
  "list_all2 line_has_text ls ts \<Longrightarrow> line_texts ls = Inr (map JStr ts)"
proof (induction ls ts rule: list_all2_induct)
  case Nil
  then show ?case by simp
next
  case (Cons l ls t ts)
  then show ?case by (cases l) simp_all
qed

lemma page_has_linesD:
  assumes "page_has_lines p ts"
  obtains kvs ls where "p = JObj kvs" and "map_of kvs (lit ''lines'') = Some (JArr ls)"
    and "list_all2 line_has_text ls ts"
proof -
  from assms obtain kvs where p: "p = JObj kvs" by (cases p) simp_all
  with assms obtain ls where "as_list (map_of kvs (lit ''lines'')) = Some ls"
    and "list_all2 line_has_text ls ts"
    by (cases "as_list (map_of kvs (lit ''lines''))") simp_all
  with p that show thesis by (blast dest: as_list_Some)
qed

lemma page_texts_shape:
  "list_all2 page_has_lines ps pss \<Longrightarrow> page_texts ps = Inr (map JStr (concat pss))"
proof (induction ps pss rule: list_all2_induct)
  case Nil
  then show ?case by simp
next
  case (Cons p ps ts pss)
  from Cons.hyps(1) obtain kvs ls where p: "p = JObj kvs"
    and ls: "map_of kvs (lit ''lines'') = Some (JArr ls)" "list_all2 line_has_text ls ts"
    by (rule page_has_linesD)
  show ?case using Cons.IH ls by (simp add: p line_texts_shape)
qed

lemma str_items_strings: "str_items i (map JStr ss) = Inr ss"
  by (induction ss arbitrary: i) simp_all

lemma succeeded_text_shape:
  assumes "result_has_pages rj pss"
  shows "succeeded_text rj = Inr (join nl (concat pss))"
proof -
  from assms obtain kvs where rj: "rj = JObj kvs" by (cases rj) simp_all
  with assms obtain ar where ar: "as_dict (map_of kvs (lit ''analyzeResult'')) = Some ar"
    and 1: "case as_list (map_of ar (lit ''readResults'')) of
              Some ps \<Rightarrow> list_all2 page_has_lines ps pss | None \<Rightarrow> False"
    by (cases "as_dict (map_of kvs (lit ''analyzeResult''))") simp_all
  from 1 obtain ps where ps: "as_list (map_of ar (lit ''readResults'')) = Some ps"
    and 2: "list_all2 page_has_lines ps pss"
    by (cases "as_list (map_of ar (lit ''readResults''))") simp_all
  have "map_of kvs (lit ''analyzeResult'') = Some (JObj ar)"
    and "map_of ar (lit ''readResults'') = Some (JArr ps)"
    using ar ps by (simp_all add: as_dict_Some as_list_Some)
  then show ?thesis
    using 2 by (simp add: succeeded_text_def rj page_texts_shape str_items_strings)
qed

lemma azure_read_image_polls:
  assumes "open_rb w n = None" "post w n = Inr resp" "status_code resp = 202"
    and "operation_location resp = Some u" "u \<noteq> []"
  shows "azure_read_image pf w n timeout = poll_loop pf w n (deadline w n timeout) 0"
  using assms by (simp add: azure_read_image_def)

subsection \<open>The ways out of the poll loop\<close>

lemma failed_neq_succeeded: "lit ''failed'' \<noteq> lit ''succeeded''"
  by (simp add: lit_def)








lemma READ_API_cfg_remote: "READ_API cfg_remote \<noteq> None"
  by (simp add: READ_API_def cfg_remote_def lit_def)


text \<open>
  The rounding of the deadline decides the first test of the loop.  In
  \<open>world_rounding\<close> the second reading is below the real sum of the first reading and
  the timeout, but not below the deadline, which is that sum rounded: no poll is sent.
\<close>

lemma rounding_decides_the_first_test:
  "clock world_rounding n 1 < clock world_rounding n 0 + 30 \<and>
   deadline world_rounding n 30 = clock world_rounding n 1 \<and>
   azure_read_image demo_platform world_rounding n 30 = Some (timed_out, 0)"
proof -
  have c: "clock world_rounding n 0 = 3152519739159347 / 2 ^ 52"
    "clock world_rounding n 1 = 8641281785017139 / 2 ^ 48"
    by (simp_all add: world_rounding_def)
  have d: "deadline world_rounding n 30 = 8641281785017139 / 2 ^ 48"
    unfolding deadline_def c by (rule round_double_sum)
  have a: "azure_read_image demo_platform world_rounding n 30 =
      poll_loop demo_platform world_rounding n (8641281785017139 / 2 ^ 48) 0"
    unfolding azure_read_image_def d
    by (simp add: world_rounding_def world_ok_def accepted_def lit_def)
  have "poll_loop demo_platform world_rounding n (8641281785017139 / 2 ^ 48) 0 =
      Some (timed_out, 0)"
    by (rule poll_loop_timeout) (simp add: world_rounding_def)
  with a c d show ?thesis by simp
qed

subsection \<open>Whitespace\<close>

lemma rstrip_decomp: "s = rstrip s @ rev (takeWhile isspace (rev s))"
proof -
  have "rev (rev (dropWhile isspace (rev s)) @ rev (takeWhile isspace (rev s))) = rev s"
    by (simp only: rev_append rev_rev_ident takeWhile_dropWhile_id)
  then have "rev (dropWhile isspace (rev s)) @ rev (takeWhile isspace (rev s)) = s"
    by (simp only: rev_is_rev_conv)
  then show ?thesis by (simp add: rstrip_def)
qed

lemma rstrip_Nil_iff: "rstrip s = [] \<longleftrightarrow> (\<forall>c\<in>set s. isspace c)"
  by (simp add: rstrip_def)

lemma rstrip_last: "rstrip s \<noteq> [] \<Longrightarrow> \<not> isspace (last (rstrip s))"
  by (simp add: rstrip_def last_rev hd_dropWhile)

lemma strip_Nil_iff: "strip s = [] \<longleftrightarrow> (\<forall>c\<in>set s. isspace c)"
proof
  assume "strip s = []"
  then have all: "\<forall>c\<in>set (rstrip s). isspace c"
    by (simp add: strip_def)
  have "rstrip s = []"
  proof (rule ccontr)
    assume ne: "rstrip s \<noteq> []"
    then have "last (rstrip s) \<in> set (rstrip s)" by simp
    with all have "isspace (last (rstrip s))" by blast
    with rstrip_last [OF ne] show False by simp
  qed
  then show "\<forall>c\<in>set s. isspace c" by (simp add: rstrip_Nil_iff)
next
  assume "\<forall>c\<in>set s. isspace c"
  then have "rstrip s = []" by (simp add: rstrip_Nil_iff)
  then show "strip s = []" by (simp add: strip_def)
qed

subsection \<open>The example configurations and worlds, evaluated\<close>

lemma READ_API_cfg_both: "READ_API cfg_both \<noteq> None"
  by (simp add: READ_API_def cfg_both_def cfg_remote_def lit_def)

lemma READ_API_cfg_local: "READ_API cfg_local = None"
  by (simp add: READ_API_def cfg_local_def)

lemma READ_API_cfg_none: "READ_API cfg_none = None"
  by (simp add: READ_API_def cfg_none_def)

lemma READ_API_iff:
  "READ_API cfg \<noteq> None \<longleftrightarrow>
     (\<exists>ep ky. AZURE_ENDPOINT cfg = Some ep \<and> AZURE_KEY cfg = Some ky \<and> ep \<noteq> [] \<and> ky \<noteq> [])"
  by (auto simp: READ_API_def split: option.splits)

lemma world_ok_succeeds:
  "azure_read_image demo_platform world_ok n 30 = Some (Inr (lit ''A'' @ nl @ lit ''B''), 2)"
proof -
  have "azure_read_image demo_platform world_ok n 30 = poll_loop demo_platform world_ok n 30 0"
    by (simp add: azure_read_image_def deadline_def round_double_30 world_ok_def accepted_def
        lit_def)
  also have "\<dots> = poll_loop demo_platform world_ok n 30 (Suc 0)"
    by (rule poll_loop_step)
      (simp add: pending_def world_ok_def running_def lit_def)
  also have "\<dots> = Some (Inr (lit ''A'' @ nl @ lit ''B''), Suc (Suc 0))"
  proof (rule poll_loop_leave)
    show "clock world_ok n (Suc (Suc 0)) < 30" by (simp add: world_ok_def)
    have "result_has_pages succeeded_AB [[lit ''A'', lit ''B'']]"
      by (simp add: succeeded_AB_def lit_def)
    then have "succeeded_text succeeded_AB = Inr (join nl (concat [[lit ''A'', lit ''B'']]))"
      by (rule succeeded_text_shape)
    moreover have "dict_get succeeded_AB (lit ''status'') JNull = Inr (JStr (lit ''succeeded''))"
      by (simp add: succeeded_AB_def lit_def)
    ultimately show "poll_once demo_platform (get_json world_ok n (Suc 0)) =
        Some (Inr (lit ''A'' @ nl @ lit ''B''))"
      by (simp add: poll_once_def world_ok_def)
  qed
  finally show ?thesis by (simp add: numeral_2_eq_2)
qed

lemma world_failed_fails:
  "azure_read_image demo_platform world_failed n 30 =
     Some (Inl (RuntimeError (lit ''Azure Read failed: <payload>'')), 2)"
proof -
  have "azure_read_image demo_platform world_failed n 30 =
      poll_loop demo_platform world_failed n 30 0"
    by (simp add: azure_read_image_def deadline_def round_double_30 world_failed_def world_ok_def
        accepted_def lit_def)
  also have "\<dots> = poll_loop demo_platform world_failed n 30 (Suc 0)"
    by (rule poll_loop_step)
      (simp add: pending_def world_failed_def world_ok_def running_def lit_def)
  also have "\<dots> = Some (Inl (RuntimeError (lit ''Azure Read failed: <payload>'')), Suc (Suc 0))"
  proof (rule poll_loop_leave)
    show "clock world_failed n (Suc (Suc 0)) < 30" by (simp add: world_failed_def world_ok_def)
    have "dict_get failed_payload (lit ''status'') JNull = Inr (JStr (lit ''failed''))"
      by (simp add: failed_payload_def)
    then show "poll_once demo_platform (get_json world_failed n (Suc 0)) =
        Some (Inl (RuntimeError (lit ''Azure Read failed: <payload>'')))"
      by (simp add: poll_once_def world_failed_def world_ok_def failed_neq_succeeded
        demo_platform_def) (simp add: lit_def)
  qed
  finally show ?thesis by (simp add: numeral_2_eq_2)
qed

lemma world_down_fails:
  "azure_read_image demo_platform world_down n 30 =
     Some (Inl (LibraryError (lit ''connection refused'')), 0)"
  by (simp add: azure_read_image_def world_down_def world_ok_def)

lemma local_ocr_world_ok: "local_ocr world_ok n = Inr (lit ''local text'')"
  by (simp add: local_ocr_def world_ok_def)

lemma local_ocr_world_failed: "local_ocr world_failed n = Inr (lit ''local text'')"
  by (simp add: local_ocr_def world_failed_def world_ok_def)

lemma local_ocr_world_down:
  "local_ocr world_down n = Inl (LibraryError (lit ''tesseract is not installed''))"
  by (simp add: local_ocr_def world_down_def world_ok_def)

subsection \<open>The loop over the files\<close>



lemma for_files_completed:
  assumes "for_files pf cfg w i ns s = Some (None, s')"
  shows "\<exists>rels ts.
     list_all2 (\<lambda>n rel. relpath pf n = Inr rel) ns rels \<and>
     list_all2 (\<lambda>n t. ocr_text pf cfg w n = Some t) ns ts \<and>
     docs s' = docs s @
       map (\<lambda>(idx, n, t). \<lparr>page_content = t, page = idx, source = str_path pf n\<rparr>)
         (zip [i..<i + length ns] (zip ns ts)) \<and>
     md_lines s' = md_lines s @
       concat (map (\<lambda>(idx, n, rel, t).
           [heading idx n, image_ref n (replace_backslash rel)] @ text_block t)
         (zip [i..<i + length ns] (zip ns (zip rels ts))))"
  using assms
proof (induction ns arbitrary: i s)
  case Nil
  then show ?case by simp
next
  case (Cons n ns)
  from Cons.prems obtain rel where rel: "relpath pf n = Inr rel"
    by (cases "relpath pf n") simp_all
  from Cons.prems rel have int: "interrupted w n = None"
    by (cases "interrupted w n") simp_all
  from Cons.prems rel int obtain t where t: "ocr_text pf cfg w n = Some t"
    by (cases "ocr_text pf cfg w n") simp_all
  from Cons.prems rel int t have doc: "document_error pf t i (str_path pf n) = None"
    by (cases "document_error pf t i (str_path pf n)") simp_all
  let ?s1 = "\<lparr>docs = docs s @ [\<lparr>page_content = t, page = i, source = str_path pf n\<rparr>],
     md_lines = md_lines s @ [heading i n, image_ref n (replace_backslash rel)] @ text_block t\<rparr>"
  from Cons.prems rel int t doc have "for_files pf cfg w (Suc i) ns ?s1 = Some (None, s')"
    by simp
  from Cons.IH [OF this] obtain rels ts where
    r: "list_all2 (\<lambda>n rel. relpath pf n = Inr rel) ns rels" and
    o: "list_all2 (\<lambda>n t. ocr_text pf cfg w n = Some t) ns ts" and
    d: "docs s' = docs ?s1 @
       map (\<lambda>(idx, n, t). \<lparr>page_content = t, page = idx, source = str_path pf n\<rparr>)
         (zip [Suc i..<Suc i + length ns] (zip ns ts))" and
    m: "md_lines s' = md_lines ?s1 @
       concat (map (\<lambda>(idx, n, rel, t).
           [heading idx n, image_ref n (replace_backslash rel)] @ text_block t)
         (zip [Suc i..<Suc i + length ns] (zip ns (zip rels ts))))"
    by blast
  have "[i..<i + length (n # ns)] = i # [Suc i..<i + length (n # ns)]"
    by (rule upt_conv_Cons) simp
  then have upt: "[i..<i + length (n # ns)] = i # [Suc i..<Suc i + length ns]"
    by simp
  show ?case
  proof (rule exI [of _ "rel # rels"], rule exI [of _ "t # ts"], intro conjI)
    show "list_all2 (\<lambda>n rel. relpath pf n = Inr rel) (n # ns) (rel # rels)"
      using r rel by simp
    show "list_all2 (\<lambda>n t. ocr_text pf cfg w n = Some t) (n # ns) (t # ts)"
      using o t by simp
    show "docs s' = docs s @
       map (\<lambda>(idx, n, t). \<lparr>page_content = t, page = idx, source = str_path pf n\<rparr>)
         (zip [i..<i + length (n # ns)] (zip (n # ns) (t # ts)))"
      unfolding upt using d by simp
    show "md_lines s' = md_lines s @
       concat (map (\<lambda>(idx, n, rel, t).
           [heading idx n, image_ref n (replace_backslash rel)] @ text_block t)
         (zip [i..<i + length (n # ns)] (zip (n # ns) (zip (rel # rels) (t # ts)))))"
      unfolding upt using m by simp
  qed
qed

lemma for_files_completed_length:
  assumes "for_files pf cfg w 1 ns \<lparr>docs = [], md_lines = ls\<rparr> = Some (None, s')"
  shows "length (docs s') = length ns"
proof -
  from for_files_completed [OF assms] obtain ts where
    "list_all2 (\<lambda>n t. ocr_text pf cfg w n = Some t) ns ts"
    and "docs s' =
       map (\<lambda>(idx, n, t). \<lparr>page_content = t, page = idx, source = str_path pf n\<rparr>)
         (zip [1..<1 + length ns] (zip ns ts))"
    by auto
  then show ?thesis by (simp add: list_all2_lengthD [symmetric] del: upt_Suc)
qed

lemma for_files_no_obstacle:
  assumes "for_files pf cfg w i ns s = Some (None, s')" and "n \<in> set ns"
  shows "(\<exists>rel. relpath pf n = Inr rel) \<and> interrupted w n = None"
  using assms
proof (induction ns arbitrary: i s)
  case Nil
  then show ?case by simp
next
  case (Cons a ns)
  from Cons.prems obtain rel where rel: "relpath pf a = Inr rel"
    by (cases "relpath pf a") simp_all
  from Cons.prems rel have int: "interrupted w a = None"
    by (cases "interrupted w a") simp_all
  from Cons.prems rel int obtain t where t: "ocr_text pf cfg w a = Some t"
    by (cases "ocr_text pf cfg w a") simp_all
  from Cons.prems rel int t have doc: "document_error pf t i (str_path pf a) = None"
    by (cases "document_error pf t i (str_path pf a)") simp_all
  show ?case
  proof (cases "n = a")
    case True
    with rel int show ?thesis by simp
  next
    case False
    with Cons.prems rel int t doc Cons.IH show ?thesis by auto
  qed
qed

lemma for_files_returns:
  assumes "\<forall>n\<in>set ns. (\<exists>rel. relpath pf n = Inr rel) \<and> interrupted w n = None \<and>
      (\<exists>t. ocr_text pf cfg w n = Some t) \<and>
      (\<forall>t idx. document_error pf t idx (str_path pf n) = None)"
  shows "\<exists>s'. for_files pf cfg w i ns s = Some (None, s')"
  using assms
proof (induction ns arbitrary: i s)
  case Nil
  then show ?case by simp
next
  case (Cons n ns)
  from Cons.prems obtain rel t where "relpath pf n = Inr rel" "interrupted w n = None"
      "ocr_text pf cfg w n = Some t" "document_error pf t i (str_path pf n) = None"
    by auto
  moreover from Cons.prems
  have "\<forall>n\<in>set ns. (\<exists>rel. relpath pf n = Inr rel) \<and> interrupted w n = None \<and>
      (\<exists>t. ocr_text pf cfg w n = Some t) \<and>
      (\<forall>t idx. document_error pf t idx (str_path pf n) = None)"
    by simp
  ultimately show ?case using Cons.IH by simp
qed

lemma ocr_text_returns:
  assumes "READ_API cfg \<noteq> None \<longrightarrow> (\<exists>y. azure_read_image pf w n 30 = Some y)"
  shows "\<exists>t. ocr_text pf cfg w n = Some t"
proof (cases "READ_API cfg \<noteq> None")
  case True
  with assms obtain r k where "azure_read_image pf w n 30 = Some (r, k)" by auto
  with True show ?thesis
    by (cases r; cases "local_ocr w n") (simp_all add: ocr_text_def)
next
  case False
  then show ?thesis by (cases "local_ocr w n") (simp_all add: ocr_text_def)
qed

subsection \<open>The write and the end of a run\<close>


lemma write_text_succeeds:
  "fst (write_text pf w d) = None \<longleftrightarrow> snd (write_text pf w d) = Whole d"
  by (auto simp: write_text_def split: option.splits)

lemma write_text_ok:
  "fst (write_text pf w d) = None \<longleftrightarrow> open_w w = None \<and> encodable d \<and> write_fault w = None"
  by (auto simp: write_text_def split: option.splits)

lemma write_text_file:
  "snd (write_text pf w d) =
     (if open_w w \<noteq> None then Untouched
      else if \<not> encodable d then Emptied
      else if write_fault w \<noteq> None then Torn
      else Whole d)"
  by (auto simp: write_text_def split: option.splits)

lemma main_cases:
  assumes "main pf cfg w = Some out"
  obtains (enumeration) e where "iterdir w = Inl e" and "raised out = Some (Raised e)"
      and "written out = []" and "output_md out = Untouched"
  | (in_loop) entries a where "iterdir w = Inr entries"
      and "for_files pf cfg w 1 (files pf entries)
             \<lparr>docs = [], md_lines = [lit ''# OCR Output'' @ nl]\<rparr> = Some (Some a, final out)"
      and "raised out = Some a" and "written out = []" and "output_md out = Untouched"
  | (after_loop) entries where "iterdir w = Inr entries"
      and "for_files pf cfg w 1 (files pf entries)
             \<lparr>docs = [], md_lines = [lit ''# OCR Output'' @ nl]\<rparr> = Some (None, final out)"
      and "written out = [join nl (md_lines (final out))]"
      and "output_md out = snd (write_text pf w (join nl (md_lines (final out))))"
      and "raised out = None \<longleftrightarrow>
             fst (write_text pf w (join nl (md_lines (final out)))) = None \<and> print_error w = None"
proof (cases "iterdir w")
  case (Inl e)
  with assms have "raised out = Some (Raised e)" "written out = []" "output_md out = Untouched"
    by (auto simp: main_def)
  with Inl show thesis by (rule enumeration)
next
  case (Inr entries)
  let ?r = "for_files pf cfg w 1 (files pf entries)
    \<lparr>docs = [], md_lines = [lit ''# OCR Output'' @ nl]\<rparr>"
  from assms Inr obtain x s where r: "?r = Some (x, s)"
    by (cases ?r) (auto simp: main_def)
  show thesis
  proof (cases x)
    case (Some a)
    with assms Inr r have "final out = s" "raised out = Some a" "written out = []"
        "output_md out = Untouched"
      by (auto simp: main_def)
    with Inr r Some show thesis by (intro in_loop [of entries a]) simp_all
  next
    case None
    obtain x f where wt: "write_text pf w (join nl (md_lines s)) = (x, f)"
      by (cases "write_text pf w (join nl (md_lines s))")
    from assms Inr r None wt have "final out = s" "written out = [join nl (md_lines s)]"
        "output_md out = f" "raised out = None \<longleftrightarrow> x = None \<and> print_error w = None"
      by (auto simp: main_def split: option.splits)
    with Inr r None wt show thesis by (intro after_loop [of entries]) simp_all
  qed
qed


lemma main_after_loop:
  assumes "iterdir w = Inr entries"
    and "for_files pf cfg w 1 (files pf entries)
           \<lparr>docs = [], md_lines = [lit ''# OCR Output'' @ nl]\<rparr> = Some (None, s)"
  shows "\<exists>out. main pf cfg w = Some out \<and> final out = s \<and>
     written out = [join nl (md_lines s)] \<and>
     output_md out = snd (write_text pf w (join nl (md_lines s))) \<and>
     (raised out = None \<longleftrightarrow>
        fst (write_text pf w (join nl (md_lines s))) = None \<and> print_error w = None)"
proof -
  obtain x f where wt: "write_text pf w (join nl (md_lines s)) = (x, f)"
    by (cases "write_text pf w (join nl (md_lines s))")
  show ?thesis
    using assms wt by (cases x; cases "print_error w") (simp_all add: main_def)
qed

lemma main_in_loop:
  assumes "iterdir w = Inr entries"
    and "for_files pf cfg w 1 (files pf entries)
           \<lparr>docs = [], md_lines = [lit ''# OCR Output'' @ nl]\<rparr> = Some (Some a, s)"
  shows "main pf cfg w =
     Some \<lparr>raised = Some a, final = s, written = [], output_md = Untouched, printed = []\<rparr>"
  using assms by (simp add: main_def)

lemma main_obstacle:
  assumes "main pf cfg w = Some out" and "iterdir w = Inr entries"
    and "n \<in> set (files pf entries)"
    and "relpath pf n = Inl e \<or> interrupted w n = Some i"
  shows "raised out \<noteq> None \<and> written out = [] \<and> output_md out = Untouched"
  using assms(1)
proof (cases rule: main_cases)
  case (enumeration e')
  with assms(2) show ?thesis by simp
next
  case (in_loop entries' a)
  then show ?thesis by simp
next
  case (after_loop entries')
  with assms(2) have "for_files pf cfg w 1 (files pf entries)
      \<lparr>docs = [], md_lines = [lit ''# OCR Output'' @ nl]\<rparr> = Some (None, final out)"
    by simp
  from for_files_no_obstacle [OF this assms(3)] assms(4) show ?thesis by auto
qed

lemma main_returns:
  assumes "iterdir w = Inr entries"
    and "\<forall>n\<in>set (files pf entries).
      (\<exists>rel. relpath pf n = Inr rel) \<and> interrupted w n = None \<and>
      (\<exists>t. ocr_text pf cfg w n = Some t) \<and>
      (\<forall>t idx. document_error pf t idx (str_path pf n) = None)"
  shows "\<exists>out. main pf cfg w = Some out \<and>
    length (docs (final out)) = length (files pf entries) \<and>
    written out = [join nl (md_lines (final out))] \<and>
    output_md out = snd (write_text pf w (join nl (md_lines (final out)))) \<and>
    (raised out = None \<longleftrightarrow>
       fst (write_text pf w (join nl (md_lines (final out)))) = None \<and> print_error w = None)"
proof -
  let ?s0 = "\<lparr>docs = [], md_lines = [lit ''# OCR Output'' @ nl]\<rparr>"
  from for_files_returns [OF assms(2)] obtain s' where
    run: "for_files pf cfg w 1 (files pf entries) ?s0 = Some (None, s')"
    by blast
  have len: "length (docs s') = length (files pf entries)"
    using run by (rule for_files_completed_length)
  from main_after_loop [OF assms(1) run] len show ?thesis by auto
qed





subsection \<open>Runs with the same inputs\<close>

lemma poll_loop_cong_Some:
  assumes "poll_loop pf w n d k = Some y"
    and "clock w n = clock w' n" and "get_json w n = get_json w' n"
  shows "poll_loop pf w' n d k = Some y"
  using assms
proof (induction pf w n d k y rule: poll_loop.raw_induct [rotated, consumes 1])
  case (1 f pf w n d k y)
  have c: "clock w' n (Suc k) = clock w n (Suc k)" and g: "get_json w' n k = get_json w n k"
    using 1(3,4) by simp_all
  show ?case
  proof (cases "clock w n (Suc k) < d")
    case False
    with 1(2) c show ?thesis by (subst poll_loop.simps) simp
  next
    case True
    show ?thesis
    proof (cases "poll_once pf (get_json w n k)")
      case (Some r)
      with 1(2) True c g show ?thesis by (subst poll_loop.simps) simp
    next
      case None
      with 1(2) True have "f pf w n d (Suc k) = Some y" by simp
      from 1(1) [OF this 1(3,4)] have "poll_loop pf w' n d (Suc k) = Some y" .
      with None True c g show ?thesis by (subst poll_loop.simps) simp
    qed
  qed
qed

lemma poll_loop_cong:
  assumes "clock w n = clock w' n" and "get_json w n = get_json w' n"
  shows "poll_loop pf w n d k = poll_loop pf w' n d k"
proof (cases "poll_loop pf w n d k")
  case (Some y)
  with poll_loop_cong_Some [OF Some assms] show ?thesis by simp
next
  case None
  show ?thesis
  proof (cases "poll_loop pf w' n d k")
    case (Some y)
    from poll_loop_cong_Some [OF Some assms(1) [symmetric] assms(2) [symmetric]] None
    show ?thesis by simp
  qed (simp add: None)
qed

lemma azure_read_image_cong:
  assumes "open_rb w n = open_rb w' n" and "post w n = post w' n"
    and "clock w n = clock w' n" and "get_json w n = get_json w' n"
  shows "azure_read_image pf w n t = azure_read_image pf w' n t"
proof -
  have d: "deadline w n t = deadline w' n t"
    using assms(3) by (simp add: deadline_def)
  have l: "poll_loop pf w n x 0 = poll_loop pf w' n x 0" for x
    using assms(3,4) by (rule poll_loop_cong)
  show ?thesis unfolding azure_read_image_def assms(1,2) d l by (rule refl)
qed

lemma ocr_text_cong:
  assumes "same_answers w w' n" and "same_clock w w' n"
  shows "ocr_text pf cfg w n = ocr_text pf cfg w' n"
proof -
  from assms have a: "azure_read_image pf w n 30 = azure_read_image pf w' n 30"
    by (intro azure_read_image_cong) (simp_all add: same_answers_def same_clock_def)
  from assms have l: "local_ocr w n = local_ocr w' n"
    by (auto simp: same_answers_def local_ocr_def split: option.splits)
  show ?thesis unfolding ocr_text_def a l by (rule refl)
qed






lemma ocr_text_other_folder:
  "ocr_text pf cfg (w\<lparr>iterdir := x\<rparr>) n = ocr_text pf cfg w n"
  by (rule ocr_text_cong) (simp_all add: same_answers_def same_clock_def)

subsection \<open>The example runs, evaluated\<close>

lemma files_folder_ok: "files demo_platform folder_ok = [lit ''a.png'', lit ''b.JPG'']"
  by (simp add: files_def demo_platform_def folder_ok_def lit_def suffix_def lower_def IMAGE_EXTS_def)

lemma files_folder_ok_two_drives: "files two_drives folder_ok = [lit ''a.png'', lit ''b.JPG'']"
  by (simp add: files_def two_drives_def demo_platform_def folder_ok_def lit_def suffix_def
    lower_def IMAGE_EXTS_def)

lemma files_folder_surrogate:
  "files demo_platform folder_surrogate = [lit ''a.png'', lit ''b'' @ [56521] @ lit ''.png'']"
  by (simp add: files_def demo_platform_def folder_surrogate_def lit_def suffix_def lower_def
    IMAGE_EXTS_def)

lemma iterdir_world_ok: "iterdir world_ok = Inr folder_ok"
  by (simp add: world_ok_def)

lemma ocr_text_world_ok:
  "ocr_text demo_platform cfg_remote world_ok n = Some (lit ''A'' @ nl @ lit ''B'')"
  by (simp add: ocr_text_def READ_API_cfg_remote world_ok_succeeds)

lemma str_nat_digit: "n < 10 \<Longrightarrow> str_nat n = [48 + n]"
  by (subst str_nat.simps) simp

lemma demo_platform_fields:
  "relpath demo_platform = (\<lambda>n. Inr (lit ''images'' @ [92] @ n))"
  "str_path demo_platform = (\<lambda>n. lit ''images/'' @ n)"
  "OUTPUT_MD demo_platform = lit ''output.md''"
  "document_error demo_platform = (\<lambda>t idx src. None)"
  "encode_error demo_platform = utf8_error"
  by (simp_all add: demo_platform_def)

lemma world_ok_writes:
  "interrupted world_ok n = None" "open_w world_ok = None" "write_fault world_ok = None"
  "print_error world_ok = None"
  by (simp_all add: world_ok_def)

lemma encodable_lines_ok: "encodable (join nl lines_ok)"
  by (simp add: encodable_def lines_ok_def lit_def nl_def fence_def dash_def)

lemma main_world_ok: "main demo_platform cfg_remote world_ok = Some outcome_ok"
proof -
  note p = demo_platform_fields
  have f: "for_files demo_platform cfg_remote world_ok 1 [lit ''a.png'', lit ''b.JPG'']
      \<lparr>docs = [], md_lines = [lit ''# OCR Output'' @ nl]\<rparr> = Some (None, final outcome_ok)"
    by (simp add: ocr_text_world_ok world_ok_writes p heading_def image_ref_def
      replace_backslash_def text_block_def strip_def rstrip_def isspace_def str_nat_digit
      outcome_ok_def lines_ok_def lit_def nl_def fence_def dash_def)
  have m: "md_lines (final outcome_ok) = lines_ok" by (simp add: outcome_ok_def)
  have wt: "write_text demo_platform world_ok (join nl lines_ok) = (None, Whole (join nl lines_ok))"
    by (simp add: write_text_def world_ok_writes encodable_lines_ok)
  show ?thesis
    apply (subst main_def)
    apply (subst iterdir_world_ok)
    apply (simp only: sum.case files_folder_ok f option.case prod.case m wt world_ok_writes)
    apply (simp add: p outcome_ok_def str_nat_digit)
    apply (simp add: lit_def)
    done
qed

lemma main_two_drives:
  "main two_drives cfg_remote world_ok =
     Some \<lparr>raised = Some (Raised (LibraryError (lit ''path is on mount C:, start on mount D:''))),
       final = \<lparr>docs = [], md_lines = [lit ''# OCR Output'' @ nl]\<rparr>, written = [],
       output_md = Untouched, printed = []\<rparr>"
  by (simp add: main_def iterdir_world_ok files_folder_ok_two_drives) (simp add: two_drives_def)

lemma world_bad_json_raises:
  "azure_read_image demo_platform world_bad_json n 30 =
     Some (Inl (LibraryError (lit ''Expecting value: line 1 column 1 (char 0)'')), 1)"
proof -
  have "azure_read_image demo_platform world_bad_json n 30 =
      poll_loop demo_platform world_bad_json n 30 0"
    by (simp add: azure_read_image_def deadline_def round_double_30 world_bad_json_def
        world_ok_def accepted_def lit_def)
  also have "\<dots> = Some (Inl (LibraryError (lit ''Expecting value: line 1 column 1 (char 0)'')), Suc 0)"
    by (rule poll_loop_leave) (simp_all add: world_bad_json_def world_ok_def poll_once_def)
  finally show ?thesis by simp
qed

lemma local_ocr_world_bad_json: "local_ocr world_bad_json n = Inr (lit ''local text'')"
  by (simp add: local_ocr_def world_bad_json_def world_ok_def)






lemma main_world_surrogate:
  "main demo_platform cfg_remote world_surrogate = Some outcome_surrogate"
proof -
  note p = demo_platform_fields
  have i: "iterdir world_surrogate = Inr folder_surrogate" by (simp add: world_surrogate_def)
  have o: "ocr_text demo_platform cfg_remote world_surrogate n = Some (lit ''A'' @ nl @ lit ''B'')"
    for n unfolding world_surrogate_def ocr_text_other_folder by (rule ocr_text_world_ok)
  have x: "interrupted world_surrogate n = None" "open_w world_surrogate = None" for n
    by (simp_all add: world_surrogate_def world_ok_def)
  have f: "for_files demo_platform cfg_remote world_surrogate 1
      [lit ''a.png'', lit ''b'' @ [56521] @ lit ''.png'']
      \<lparr>docs = [], md_lines = [lit ''# OCR Output'' @ nl]\<rparr> = Some (None, final outcome_surrogate)"
    by (simp add: o x p heading_def image_ref_def
      replace_backslash_def text_block_def strip_def rstrip_def isspace_def str_nat_digit
      outcome_surrogate_def lines_surrogate_def lit_def nl_def fence_def dash_def)
  have m: "md_lines (final outcome_surrogate) = lines_surrogate" by (simp add: outcome_surrogate_def)
  have e: "\<not> encodable (join nl lines_surrogate)"
    by (simp add: encodable_def lines_surrogate_def lit_def nl_def fence_def dash_def)
  have wt: "write_text demo_platform world_surrogate (join nl lines_surrogate) =
      (Some (Raised (utf8_error (join nl lines_surrogate))), Emptied)"
    by (simp add: write_text_def x e p)
  show ?thesis
    apply (subst main_def)
    apply (subst i)
    apply (simp only: sum.case files_folder_surrogate f option.case prod.case m wt)
    apply (simp add: outcome_surrogate_def)
    done
qed

lemma utf8_error_lines_surrogate:
  "utf8_error (join nl lines_surrogate) =
     LibraryError (quoted (lit ''utf-8'') @ lit '' codec can'' @ [39] @ lit ''t encode character '' @
       quoted ([92] @ lit ''udcc9'') @ lit '' in position 91: surrogates not allowed'')"
  by (simp add: utf8_error_def Let_def hex4_def lines_surrogate_def quoted_def lit_def nl_def
    fence_def dash_def)

lemma main_world_interrupted:
  "main demo_platform cfg_both world_interrupted = Some outcome_interrupted"
proof -
  note p = demo_platform_fields
  have i: "iterdir world_interrupted = Inr folder_ok"
    by (simp add: world_interrupted_def world_ok_def)
  have x: "interrupted world_interrupted n = Some KeyboardInterrupt" for n
    by (simp add: world_interrupted_def)
  have f: "for_files demo_platform cfg_both world_interrupted 1 [lit ''a.png'', lit ''b.JPG'']
      \<lparr>docs = [], md_lines = [lit ''# OCR Output'' @ nl]\<rparr> =
      Some (Some (Interrupted KeyboardInterrupt), final outcome_interrupted)"
    by (simp add: x p heading_def image_ref_def replace_backslash_def str_nat_digit
      outcome_interrupted_def lit_def nl_def dash_def)
  have "main demo_platform cfg_both world_interrupted =
      Some \<lparr>raised = Some (Interrupted KeyboardInterrupt), final = final outcome_interrupted,
        written = [], output_md = Untouched, printed = []\<rparr>"
    using i by (rule main_in_loop) (simp only: files_folder_ok f)
  then show ?thesis by (simp add: outcome_interrupted_def)
qed


subsection \<open>The suffix of a name\<close>












section \<open>Properties of the specification\<close>

text \<open>
  C1.  The dispatch of one file.  The remote backend is configured when both
  environment variables are set and not empty.  When it is configured and returns a
  text, that text is the text of the page; when it raises and the local engine is
  available, the text of the local engine is the text of the page, and if the local
  engine raises too the text is the message that names both errors; when it raises
  and no local engine is available, the message names the remote error only.  When
  the remote backend is not configured, the local engine is used if available, its
  error becoming the message that names it, and with no backend at all the text is
  the fixed notice.
\<close>

theorem ocr_dispatch_decision_table:
  "(READ_API cfg \<noteq> None \<longleftrightarrow>
      (\<exists>ep ky. AZURE_ENDPOINT cfg = Some ep \<and> AZURE_KEY cfg = Some ky \<and> ep \<noteq> [] \<and> ky \<noteq> [])) \<and>
   (READ_API cfg \<noteq> None \<and> azure_read_image pf w n 30 = Some (Inr t, k) \<longrightarrow>
      ocr_text pf cfg w n = Some t) \<and>
   (READ_API cfg \<noteq> None \<and> azure_read_image pf w n 30 = Some (Inl e_azure, k) \<and>
      pytesseract cfg \<and> local_ocr w n = Inr t \<longrightarrow>
      ocr_text pf cfg w n = Some t) \<and>
   (READ_API cfg \<noteq> None \<and> azure_read_image pf w n 30 = Some (Inl e_azure, k) \<and>
      pytesseract cfg \<and> local_ocr w n = Inl e_tess \<longrightarrow>
      ocr_text pf cfg w n =
        Some (lit ''_Error during OCR: Azure error: '' @ str_exn e_azure @
          lit ''; Tesseract error: '' @ str_exn e_tess @ lit ''_'')) \<and>
   (READ_API cfg \<noteq> None \<and> azure_read_image pf w n 30 = Some (Inl e_azure, k) \<and>
      \<not> pytesseract cfg \<longrightarrow>
      ocr_text pf cfg w n =
        Some (lit ''_Error during OCR: Azure error: '' @ str_exn e_azure @ lit ''_'')) \<and>
   (READ_API cfg = None \<and> pytesseract cfg \<and> local_ocr w n = Inr t \<longrightarrow>
      ocr_text pf cfg w n = Some t) \<and>
   (READ_API cfg = None \<and> pytesseract cfg \<and> local_ocr w n = Inl e_tess \<longrightarrow>
      ocr_text pf cfg w n = Some (lit ''_Tesseract error: '' @ str_exn e_tess @ lit ''_'')) \<and>
   (READ_API cfg = None \<and> \<not> pytesseract cfg \<longrightarrow>
      ocr_text pf cfg w n =
        Some (lit ''_No OCR backend available. Set AZURE_OCR_* or install pytesseract and Tesseract executable._''))"
proof (intro conjI impI)
  show "READ_API cfg \<noteq> None \<longleftrightarrow>
      (\<exists>ep ky. AZURE_ENDPOINT cfg = Some ep \<and> AZURE_KEY cfg = Some ky \<and> ep \<noteq> [] \<and> ky \<noteq> [])"
    by (rule READ_API_iff)
qed (simp_all add: ocr_text_def)


theorem ocr_dispatch_decision_table_witness:
  "ocr_text demo_platform cfg_remote world_ok (lit ''a.png'') = Some (lit ''A'' @ nl @ lit ''B'') \<and>
   ocr_text demo_platform cfg_both world_failed (lit ''a.png'') = Some (lit ''local text'') \<and>
   ocr_text demo_platform cfg_both world_down (lit ''a.png'') =
     Some (lit ''_Error during OCR: Azure error: connection refused; Tesseract error: tesseract is not installed_'') \<and>
   ocr_text demo_platform cfg_remote world_failed (lit ''a.png'') =
     Some (lit ''_Error during OCR: Azure error: Azure Read failed: <payload>_'') \<and>
   ocr_text demo_platform cfg_local world_ok (lit ''a.png'') = Some (lit ''local text'') \<and>
   ocr_text demo_platform cfg_local world_down (lit ''a.png'') =
     Some (lit ''_Tesseract error: tesseract is not installed_'') \<and>
   ocr_text demo_platform cfg_none world_ok (lit ''a.png'') =
     Some (lit ''_No OCR backend available. Set AZURE_OCR_* or install pytesseract and Tesseract executable._'')"
proof -
  let ?n = "lit ''a.png''"
  note table = ocr_dispatch_decision_table [where pf = demo_platform and n = ?n]
  have 1: "ocr_text demo_platform cfg_remote world_ok ?n = Some (lit ''A'' @ nl @ lit ''B'')"
    using table [where cfg = cfg_remote and w = world_ok and k = 2
        and t = "lit ''A'' @ nl @ lit ''B''"]
    by (simp add: READ_API_cfg_remote world_ok_succeeds)
  have 2: "ocr_text demo_platform cfg_both world_failed ?n = Some (lit ''local text'')"
    using table [where cfg = cfg_both and w = world_failed and k = 2 and t = "lit ''local text''"
        and e_azure = "RuntimeError (lit ''Azure Read failed: <payload>'')"]
    by (simp add: READ_API_cfg_both world_failed_fails local_ocr_world_failed)
      (simp add: cfg_both_def)
  have 3: "ocr_text demo_platform cfg_both world_down ?n =
     Some (lit ''_Error during OCR: Azure error: connection refused; Tesseract error: tesseract is not installed_'')"
    using table [where cfg = cfg_both and w = world_down and k = 0
        and e_azure = "LibraryError (lit ''connection refused'')"
        and e_tess = "LibraryError (lit ''tesseract is not installed'')"]
    by (simp add: READ_API_cfg_both world_down_fails local_ocr_world_down)
      (simp add: cfg_both_def lit_def)
  have 4: "ocr_text demo_platform cfg_remote world_failed ?n =
     Some (lit ''_Error during OCR: Azure error: Azure Read failed: <payload>_'')"
    using table [where cfg = cfg_remote and w = world_failed and k = 2
        and e_azure = "RuntimeError (lit ''Azure Read failed: <payload>'')"]
    by (simp add: READ_API_cfg_remote world_failed_fails)
      (simp add: cfg_remote_def lit_def)
  have 5: "ocr_text demo_platform cfg_local world_ok ?n = Some (lit ''local text'')"
    using table [where cfg = cfg_local and w = world_ok and t = "lit ''local text''"]
    by (simp add: READ_API_cfg_local local_ocr_world_ok) (simp add: cfg_local_def)
  have 6: "ocr_text demo_platform cfg_local world_down ?n =
     Some (lit ''_Tesseract error: tesseract is not installed_'')"
    using table [where cfg = cfg_local and w = world_down
        and e_tess = "LibraryError (lit ''tesseract is not installed'')"]
    by (simp add: READ_API_cfg_local local_ocr_world_down) (simp add: cfg_local_def lit_def)
  have 7: "ocr_text demo_platform cfg_none world_ok ?n =
     Some (lit ''_No OCR backend available. Set AZURE_OCR_* or install pytesseract and Tesseract executable._'')"
    using table [where cfg = cfg_none and w = world_ok]
    by (simp add: READ_API_cfg_none) (simp add: cfg_none_def)
  from 1 2 3 4 5 6 7 show ?thesis by simp
qed




text \<open>
  C3.  When poll \<open>k\<close> of an accepted submission follows \<open>k\<close> pending polls, is made
  before the deadline and has status \<^verbatim>\<open>"succeeded"\<close>, then for a payload of the
  documented shape with pages \<open>pss\<close> the remote backend returns the texts of all lines
  of all pages, in the order of the payload, joined by the newline character.  The
  deadline is the one the code computes: the sum of the first reading and the
  timeout, rounded as float addition rounds it.  On the
  payload with the lines \<^verbatim>\<open>A\<close> and \<^verbatim>\<open>B\<close> on one page, as in \<open>world_ok\<close>, the
  result is \<^verbatim>\<open>"A\nB"\<close>.
\<close>

theorem succeeded_returns_all_lines:
  assumes "open_rb w n = None" and "post w n = Inr resp" and "status_code resp = 202"
    and "operation_location resp = Some u" and "u \<noteq> []"
    and "\<forall>j<k. pending w n (deadline w n timeout) j"
    and "clock w n (Suc k) < deadline w n timeout"
    and "get_json w n k = Inr rj"
    and "dict_get rj (lit ''status'') JNull = Inr (JStr (lit ''succeeded''))"
    and "result_has_pages rj pss"
  shows "azure_read_image pf w n timeout = Some (Inr (join nl (concat pss)), Suc k)"
proof -
  let ?d = "deadline w n timeout"
  have "azure_read_image pf w n timeout = poll_loop pf w n ?d 0"
    using assms(1-5) by (rule azure_read_image_polls)
  also have "\<dots> = poll_loop pf w n ?d (0 + k)"
    using assms(6) by (intro poll_loop_skip) simp
  also have "\<dots> = Some (Inr (join nl (concat pss)), Suc k)"
    using assms(7-10) by (simp add: poll_loop_leave poll_once_def succeeded_text_shape)
  finally show ?thesis .
qed

theorem succeeded_returns_all_lines_witness:
  "deadline world_ok (lit ''a.png'') 30 = 30 \<and>
   azure_read_image demo_platform world_ok (lit ''a.png'') 30 = Some (Inr (lit ''A'' @ nl @ lit ''B''), 2)"
proof -
  have d: "deadline world_ok (lit ''a.png'') 30 = 30"
    by (simp add: deadline_def world_ok_def round_double_30)
  have 1: "open_rb world_ok (lit ''a.png'') = None" by (simp add: world_ok_def)
  have 2: "post world_ok (lit ''a.png'') = Inr accepted" by (simp add: world_ok_def)
  have 3: "status_code accepted = 202" by (simp add: accepted_def)
  have 4: "operation_location accepted = Some (lit ''https://ocr.test/operations/1'')"
    by (simp add: accepted_def)
  have 5: "lit ''https://ocr.test/operations/1'' \<noteq> []" by (simp add: lit_def)
  have 6: "\<forall>j<1. pending world_ok (lit ''a.png'') (deadline world_ok (lit ''a.png'') 30) j"
    by (simp add: d) (simp add: pending_def world_ok_def running_def lit_def)
  have 7: "clock world_ok (lit ''a.png'') (Suc 1) < deadline world_ok (lit ''a.png'') 30"
    by (simp add: d) (simp add: world_ok_def)
  have 8: "get_json world_ok (lit ''a.png'') 1 = Inr succeeded_AB" by (simp add: world_ok_def)
  have 9: "dict_get succeeded_AB (lit ''status'') JNull = Inr (JStr (lit ''succeeded''))"
    by (simp add: succeeded_AB_def lit_def)
  have 10: "result_has_pages succeeded_AB [[lit ''A'', lit ''B'']]"
    by (simp add: succeeded_AB_def lit_def)
  show ?thesis
    using succeeded_returns_all_lines [OF 1 2 3 4 5 6 7 8 9 10] d
    by (simp add: nl_def)
qed

text \<open>
  C4.  The writer emits the notice \<^verbatim>\<open>_No text recognized._\<close> exactly when every
  character of the OCR text is whitespace (the empty text included).  Otherwise it
  emits the fence, the text without its trailing whitespace, and the closing fence:
  the text of the block is not empty, does not end in whitespace, and is the OCR text
  up to a tail of whitespace, so that leading whitespace is kept.
\<close>

theorem text_block_notice_or_code:
  "((text_block t = [lit ''_No text recognized._'' @ nl]) = (\<forall>c\<in>set t. isspace c)) \<and>
   ((\<exists>c\<in>set t. \<not> isspace c) \<longrightarrow>
      text_block t = [fence @ lit ''text'', rstrip t, fence @ nl] \<and>
      rstrip t \<noteq> [] \<and> \<not> isspace (last (rstrip t)) \<and>
      (\<exists>ws. t = rstrip t @ ws \<and> (\<forall>c\<in>set ws. isspace c)))"
proof (intro conjI impI)
  show "(text_block t = [lit ''_No text recognized._'' @ nl]) = (\<forall>c\<in>set t. isspace c)"
    by (simp add: text_block_def strip_Nil_iff)
next
  assume ne: "\<exists>c\<in>set t. \<not> isspace c"
  then show "text_block t = [fence @ lit ''text'', rstrip t, fence @ nl]"
    by (simp add: text_block_def strip_Nil_iff)
  from ne show r: "rstrip t \<noteq> []" by (simp add: rstrip_Nil_iff)
  then show "\<not> isspace (last (rstrip t))" by (rule rstrip_last)
  have "t = rstrip t @ rev (takeWhile isspace (rev t))" by (rule rstrip_decomp)
  moreover have "\<forall>c\<in>set (rev (takeWhile isspace (rev t))). isspace c"
    by (auto dest: set_takeWhileD)
  ultimately show "\<exists>ws. t = rstrip t @ ws \<and> (\<forall>c\<in>set ws. isspace c)" by blast
qed

theorem text_block_notice_or_code_witness:
  "text_block [] = [lit ''_No text recognized._'' @ nl] \<and>
   text_block (lit '' '' @ nl) = [lit ''_No text recognized._'' @ nl] \<and>
   text_block (lit ''  ab '' @ nl) = [fence @ lit ''text'', lit ''  ab'', fence @ nl]"
proof -
  have 1: "\<forall>c\<in>set []. isspace c" by simp
  have 2: "\<forall>c\<in>set (lit '' '' @ nl). isspace c" by (simp add: lit_def nl_def isspace_def)
  have 3: "\<exists>c\<in>set (lit ''  ab '' @ nl). \<not> isspace c" by (simp add: lit_def nl_def isspace_def)
  have 4: "rstrip (lit ''  ab '' @ nl) = lit ''  ab''"
    by (simp add: rstrip_def lit_def nl_def isspace_def)
  show ?thesis
    using text_block_notice_or_code [of "[]", THEN conjunct1, THEN iffD2, OF 1]
      text_block_notice_or_code [of "lit '' '' @ nl", THEN conjunct1, THEN iffD2, OF 2]
      text_block_notice_or_code [of "lit ''  ab '' @ nl", THEN conjunct2, rule_format, OF 3]
    by (simp add: 4)
qed




text \<open>
  C6.  A submission that is answered with a status other than 202 fails with the
  \<^verbatim>\<open>RuntimeError\<close> whose message holds the status code and the body; an accepted
  submission with no \<^verbatim>\<open>Operation-Location\<close> header (absent or empty) fails with the
  error of the missing header.  In both cases no poll is sent (the count is 0), and
  neither the clock nor the polls have a part in the result.
\<close>

theorem submission_refused_fails_at_once:
  "(open_rb w n = None \<and> post w n = Inr resp \<and> status_code resp \<noteq> 202 \<longrightarrow>
      azure_read_image pf w n timeout =
        Some (Inl (RuntimeError (lit ''Azure Read API error: '' @ str_nat (status_code resp) @
          lit '' '' @ body resp)), 0)) \<and>
   (open_rb w n = None \<and> post w n = Inr resp \<and> status_code resp = 202 \<and>
      (operation_location resp = None \<or> operation_location resp = Some []) \<longrightarrow>
      azure_read_image pf w n timeout =
        Some (Inl (RuntimeError (lit ''Missing Operation-Location header from Azure response'')), 0))"
  by (auto simp: azure_read_image_def)

theorem submission_refused_fails_at_once_witness:
  "azure_read_image demo_platform world_rejected (lit ''a.png'') 30 =
     Some (Inl (RuntimeError (lit ''Azure Read API error: 401 denied'')), 0) \<and>
   azure_read_image demo_platform world_no_location (lit ''a.png'') 30 =
     Some (Inl (RuntimeError (lit ''Missing Operation-Location header from Azure response'')), 0)"
proof -
  let ?r = "\<lparr>status_code = 401, body = lit ''denied'', operation_location = None\<rparr>"
  let ?a = "\<lparr>status_code = 202, body = [], operation_location = None\<rparr>"
  have 1: "open_rb world_rejected (lit ''a.png'') = None \<and> post world_rejected (lit ''a.png'') = Inr ?r \<and>
      status_code ?r \<noteq> 202"
    by (simp add: world_rejected_def world_ok_def)
  have 2: "open_rb world_no_location (lit ''a.png'') = None \<and>
      post world_no_location (lit ''a.png'') = Inr ?a \<and> status_code ?a = 202 \<and>
      (operation_location ?a = None \<or> operation_location ?a = Some [])"
    by (simp add: world_no_location_def world_ok_def)
  have 3: "str_nat 401 = lit ''401''" by (simp add: lit_def)
  show ?thesis
    using submission_refused_fails_at_once [THEN conjunct1, rule_format, OF 1, of demo_platform 30]
      submission_refused_fails_at_once [THEN conjunct2, rule_format, OF 2, of demo_platform 30]
    by (simp add: 3) (simp add: lit_def)
qed

text \<open>
  C7, as the code has it.  \<^verbatim>\<open>write_text\<close> is called at most once, and only by a run
  that processed every file: then it is given the whole accumulated document.  A run
  that ends before that call (the enumeration of a missing or unlistable folder,
  \<^verbatim>\<open>relpath\<close> or the construction of the document for some file, an interrupt)
  leaves the output file untouched.  A run
  that completes leaves the whole document in the file.  A run that ends in the call
  leaves the file untouched when it cannot be opened, emptied when the document
  cannot be encoded, and with at most a part of the document when writing the bytes
  fails.
\<close>

theorem output_written_once_at_the_end:
  "(main pf cfg w = Some out \<longrightarrow>
      written out = [] \<or> written out = [join nl (md_lines (final out))]) \<and>
   (main pf cfg w = Some out \<and> written out \<noteq> [] \<longrightarrow>
      (\<exists>entries. iterdir w = Inr entries \<and>
         length (docs (final out)) = length (files pf entries))) \<and>
   (main pf cfg w = Some out \<and> written out = [] \<longrightarrow>
      raised out \<noteq> None \<and> output_md out = Untouched) \<and>
   (main pf cfg w = Some out \<and> raised out = None \<longrightarrow>
      written out = [join nl (md_lines (final out))] \<and>
      output_md out = Whole (join nl (md_lines (final out)))) \<and>
   (main pf cfg w = Some out \<and> written out = [doc] \<longrightarrow>
      output_md out =
        (if open_w w \<noteq> None then Untouched
         else if \<not> encodable doc then Emptied
         else if write_fault w \<noteq> None then Torn
         else Whole doc)) \<and>
   (iterdir w = Inl e \<longrightarrow>
      main pf cfg w =
        Some \<lparr>raised = Some (Raised e), final = \<lparr>docs = [], md_lines = []\<rparr>, written = [],
          output_md = Untouched, printed = []\<rparr>) \<and>
   (main pf cfg w = Some out \<and> iterdir w = Inr entries \<and> n \<in> set (files pf entries) \<and>
      (relpath pf n = Inl e \<or> interrupted w n = Some i) \<longrightarrow>
      raised out \<noteq> None \<and> written out = [] \<and> output_md out = Untouched)"
proof -
  have 1: "written out = [] \<or> written out = [join nl (md_lines (final out))]"
    if "main pf cfg w = Some out"
    using that by (cases rule: main_cases) simp_all
  have 2: "\<exists>entries. iterdir w = Inr entries \<and>
      length (docs (final out)) = length (files pf entries)"
    if a: "main pf cfg w = Some out \<and> written out \<noteq> []"
  proof -
    from a have "main pf cfg w = Some out" by simp
    then show ?thesis
    proof (cases rule: main_cases)
      case (after_loop entries)
      from after_loop(2) have "length (docs (final out)) = length (files pf entries)"
        by (rule for_files_completed_length)
      with after_loop(1) show ?thesis by blast
    qed (use a in simp_all)
  qed
  have 3: "raised out \<noteq> None \<and> output_md out = Untouched"
    if a: "main pf cfg w = Some out \<and> written out = []"
  proof -
    from a have "main pf cfg w = Some out" by simp
    then show ?thesis by (cases rule: main_cases) (use a in simp_all)
  qed
  have 4: "written out = [join nl (md_lines (final out))] \<and>
      output_md out = Whole (join nl (md_lines (final out)))"
    if a: "main pf cfg w = Some out \<and> raised out = None"
  proof -
    from a have "main pf cfg w = Some out" by simp
    then show ?thesis
      by (cases rule: main_cases) (use a in \<open>simp_all add: write_text_succeeds\<close>)
  qed
  have 5: "output_md out =
        (if open_w w \<noteq> None then Untouched
         else if \<not> encodable doc then Emptied
         else if write_fault w \<noteq> None then Torn
         else Whole doc)"
    if a: "main pf cfg w = Some out \<and> written out = [doc]"
  proof -
    from a have "main pf cfg w = Some out" by simp
    then show ?thesis
    proof (cases rule: main_cases)
      case (after_loop entries)
      with a have "doc = join nl (md_lines (final out))" by simp
      with after_loop(4) show ?thesis by (simp only: write_text_file)
    qed (use a in simp_all)
  qed
  have 6: "main pf cfg w =
      Some \<lparr>raised = Some (Raised e), final = \<lparr>docs = [], md_lines = []\<rparr>, written = [],
        output_md = Untouched, printed = []\<rparr>"
    if "iterdir w = Inl e"
    using that by (simp add: main_def)
  have 7: "raised out \<noteq> None \<and> written out = [] \<and> output_md out = Untouched"
    if "main pf cfg w = Some out \<and> iterdir w = Inr entries \<and> n \<in> set (files pf entries) \<and>
      (relpath pf n = Inl e \<or> interrupted w n = Some i)"
    using that main_obstacle [of pf cfg w out entries n e i] by blast
  from 1 2 3 4 5 6 7 show ?thesis by blast
qed

theorem output_written_once_at_the_end_witness:
  "main demo_platform cfg_remote world_ok = Some outcome_ok \<and>
   length (docs (final outcome_ok)) = 2 \<and>
   written outcome_ok = [join nl (md_lines (final outcome_ok))] \<and>
   output_md outcome_ok = Whole (join nl (md_lines (final outcome_ok))) \<and>
   main demo_platform cfg_remote world_missing =
     Some \<lparr>raised = Some (Raised (LibraryError (lit ''[Errno 2] No such file or directory''))),
       final = \<lparr>docs = [], md_lines = []\<rparr>, written = [], output_md = Untouched, printed = []\<rparr> \<and>
   main two_drives cfg_remote world_ok =
     Some \<lparr>raised = Some (Raised (LibraryError (lit ''path is on mount C:, start on mount D:''))),
       final = \<lparr>docs = [], md_lines = [lit ''# OCR Output'' @ nl]\<rparr>, written = [],
       output_md = Untouched, printed = []\<rparr> \<and>
   main demo_platform cfg_both world_interrupted = Some outcome_interrupted \<and>
   written outcome_interrupted = [] \<and> output_md outcome_interrupted = Untouched"
proof -
  let ?e = "LibraryError (lit ''path is on mount C:, start on mount D:'')"
  let ?out = "\<lparr>raised = Some (Raised ?e),
       final = \<lparr>docs = [], md_lines = [lit ''# OCR Output'' @ nl]\<rparr>, written = [],
       output_md = Untouched, printed = []\<rparr>"
  have 1: "main demo_platform cfg_remote world_ok = Some outcome_ok \<and> raised outcome_ok = None"
    by (simp add: main_world_ok outcome_ok_def)
  have 3: "iterdir world_missing = Inl (LibraryError (lit ''[Errno 2] No such file or directory''))"
    by (simp add: world_missing_def)
  have 4: "main two_drives cfg_remote world_ok = Some ?out \<and> iterdir world_ok = Inr folder_ok \<and>
      lit ''a.png'' \<in> set (files two_drives folder_ok) \<and>
      (relpath two_drives (lit ''a.png'') = Inl ?e \<or>
       interrupted world_ok (lit ''a.png'') = Some KeyboardInterrupt)"
    by (simp add: main_two_drives iterdir_world_ok files_folder_ok_two_drives)
      (simp add: two_drives_def)
  have 5: "main demo_platform cfg_both world_interrupted = Some outcome_interrupted \<and>
      iterdir world_interrupted = Inr folder_ok \<and>
      lit ''a.png'' \<in> set (files demo_platform folder_ok) \<and>
      (relpath demo_platform (lit ''a.png'') = Inl ?e \<or>
       interrupted world_interrupted (lit ''a.png'') = Some KeyboardInterrupt)"
    by (simp add: main_world_interrupted files_folder_ok)
      (simp add: world_interrupted_def world_ok_def)
  note inst = output_written_once_at_the_end
  have a: "written outcome_ok = [join nl (md_lines (final outcome_ok))] \<and>
      output_md outcome_ok = Whole (join nl (md_lines (final outcome_ok)))"
    using inst [THEN conjunct2, THEN conjunct2, THEN conjunct2, THEN conjunct1, rule_format, OF 1] .
  have b: "main demo_platform cfg_remote world_missing =
     Some \<lparr>raised = Some (Raised (LibraryError (lit ''[Errno 2] No such file or directory''))),
       final = \<lparr>docs = [], md_lines = []\<rparr>, written = [], output_md = Untouched, printed = []\<rparr>"
    using 3 by (rule inst [THEN conjunct2, THEN conjunct2, THEN conjunct2, THEN conjunct2,
      THEN conjunct2, THEN conjunct1, rule_format])
  have c: "raised ?out \<noteq> None \<and> written ?out = [] \<and> output_md ?out = Untouched"
    using inst [THEN conjunct2, THEN conjunct2, THEN conjunct2, THEN conjunct2,
      THEN conjunct2, THEN conjunct2, rule_format, OF 4] .
  have d: "length (docs (final outcome_ok)) = 2" by (simp add: outcome_ok_def)
  have e: "raised outcome_interrupted \<noteq> None \<and> written outcome_interrupted = [] \<and>
      output_md outcome_interrupted = Untouched"
    using inst [THEN conjunct2, THEN conjunct2, THEN conjunct2, THEN conjunct2,
      THEN conjunct2, THEN conjunct2, rule_format, OF 5] .
  from 1 4 5 a b c d e show ?thesis by simp
qed

text \<open>
  C7, as the spec has it, fails for a run that ends in \<^verbatim>\<open>write_text\<close>.  In the
  folder whose second file has a surrogate in its name, the document cannot be
  encoded: the run ends with the \<^verbatim>\<open>UnicodeEncodeError\<close>, after the file was opened
  for writing, and leaves it emptied, whatever it held before.
\<close>

theorem failed_write_empties_output:
  "main demo_platform cfg_remote world_surrogate = Some outcome_surrogate \<and>
   raised outcome_surrogate = Some (Raised (utf8_error (join nl lines_surrogate))) \<and>
   utf8_error (join nl lines_surrogate) =
     LibraryError (quoted (lit ''utf-8'') @ lit '' codec can'' @ [39] @ lit ''t encode character '' @
       quoted ([92] @ lit ''udcc9'') @ lit '' in position 91: surrogates not allowed'') \<and>
   written outcome_surrogate = [join nl lines_surrogate] \<and>
   output_md outcome_surrogate = Emptied"
proof -
  have "raised outcome_surrogate = Some (Raised (utf8_error (join nl lines_surrogate)))"
    and "written outcome_surrogate = [join nl lines_surrogate]"
    and "output_md outcome_surrogate = Emptied"
    by (simp_all add: outcome_surrogate_def)
  with main_world_surrogate utf8_error_lines_surrogate show ?thesis by simp
qed




text \<open>
  C9, as the code has it.  Whatever instance of \<^verbatim>\<open>Exception\<close> the remote attempt for
  a file raises, and wherever it comes from (\<^verbatim>\<open>open\<close>, the submission, a poll
  request, the decoding of a poll body), it is the exception \<open>azure_read_image\<close> ends
  with, the handler of \<open>main\<close> catches it, and the text of the page is decided by the
  same fallback for every exception: the local engine if available, else the message
  that names the remote error.  Consequently, if the folder can be listed,
  \<^verbatim>\<open>relpath\<close> and the construction of the documents succeed, no interrupt arrives
  and every remote attempt ends (with a text or with any exception), the run
  processes every file and reaches the write of the document; it completes exactly when writing and printing succeed.  An interrupt
  that arrives during the attempt is not caught: the run ends with it and writes
  nothing.
\<close>

theorem remote_exceptions_are_caught:
  "(open_rb w n = Some e \<longrightarrow> azure_read_image pf w n timeout = Some (Inl e, 0)) \<and>
   (open_rb w n = None \<and> post w n = Inl e \<longrightarrow>
      azure_read_image pf w n timeout = Some (Inl e, 0)) \<and>
   (open_rb w n = None \<and> post w n = Inr resp \<and> status_code resp = 202 \<and>
      operation_location resp = Some u \<and> u \<noteq> [] \<and>
      (\<forall>j<k. pending w n (deadline w n timeout) j) \<and>
      clock w n (Suc k) < deadline w n timeout \<and> get_json w n k = Inl e \<longrightarrow>
      azure_read_image pf w n timeout = Some (Inl e, Suc k)) \<and>
   (READ_API cfg \<noteq> None \<and> azure_read_image pf w n 30 = Some (Inl e, k) \<longrightarrow>
      ocr_text pf cfg w n =
        Some (if pytesseract cfg then
                (case local_ocr w n of
                   Inr t \<Rightarrow> t
                 | Inl e_tess \<Rightarrow>
                     lit ''_Error during OCR: Azure error: '' @ str_exn e @
                       lit ''; Tesseract error: '' @ str_exn e_tess @ lit ''_'')
              else lit ''_Error during OCR: Azure error: '' @ str_exn e @ lit ''_'')) \<and>
   (iterdir w = Inr entries \<and>
      (\<forall>n\<in>set (files pf entries).
         (\<exists>rel. relpath pf n = Inr rel) \<and> interrupted w n = None \<and>
         (\<exists>y. azure_read_image pf w n 30 = Some y) \<and>
         (\<forall>t idx. document_error pf t idx (str_path pf n) = None)) \<longrightarrow>
      (\<exists>out. main pf cfg w = Some out \<and>
         length (docs (final out)) = length (files pf entries) \<and>
         written out = [join nl (md_lines (final out))] \<and>
         (raised out = None \<longleftrightarrow>
            open_w w = None \<and> encodable (join nl (md_lines (final out))) \<and>
            write_fault w = None \<and> print_error w = None))) \<and>
   (main pf cfg w = Some out \<and> iterdir w = Inr entries \<and> n \<in> set (files pf entries) \<and>
      interrupted w n = Some i \<longrightarrow>
      raised out \<noteq> None \<and> written out = [] \<and> output_md out = Untouched)"
proof (intro conjI impI)
  assume "open_rb w n = Some e"
  then show "azure_read_image pf w n timeout = Some (Inl e, 0)"
    by (simp add: azure_read_image_def)
next
  assume "open_rb w n = None \<and> post w n = Inl e"
  then show "azure_read_image pf w n timeout = Some (Inl e, 0)"
    by (simp add: azure_read_image_def)
next
  let ?d = "deadline w n timeout"
  assume a: "open_rb w n = None \<and> post w n = Inr resp \<and> status_code resp = 202 \<and>
      operation_location resp = Some u \<and> u \<noteq> [] \<and>
      (\<forall>j<k. pending w n ?d j) \<and>
      clock w n (Suc k) < ?d \<and> get_json w n k = Inl e"
  then have "azure_read_image pf w n timeout = poll_loop pf w n ?d 0"
    by (intro azure_read_image_polls [of w n resp u]) simp_all
  also have "\<dots> = poll_loop pf w n ?d (0 + k)"
    using a by (intro poll_loop_skip) simp
  also have "\<dots> = Some (Inl e, Suc k)"
    using a by (simp add: poll_loop_leave poll_once_def)
  finally show "azure_read_image pf w n timeout = Some (Inl e, Suc k)" .
next
  assume "READ_API cfg \<noteq> None \<and> azure_read_image pf w n 30 = Some (Inl e, k)"
  then show "ocr_text pf cfg w n =
        Some (if pytesseract cfg then
                (case local_ocr w n of
                   Inr t \<Rightarrow> t
                 | Inl e_tess \<Rightarrow>
                     lit ''_Error during OCR: Azure error: '' @ str_exn e @
                       lit ''; Tesseract error: '' @ str_exn e_tess @ lit ''_'')
              else lit ''_Error during OCR: Azure error: '' @ str_exn e @ lit ''_'')"
    by (cases "local_ocr w n") (simp_all add: ocr_text_def)
next
  assume a: "iterdir w = Inr entries \<and>
      (\<forall>n\<in>set (files pf entries).
         (\<exists>rel. relpath pf n = Inr rel) \<and> interrupted w n = None \<and>
         (\<exists>y. azure_read_image pf w n 30 = Some y) \<and>
         (\<forall>t idx. document_error pf t idx (str_path pf n) = None))"
  then have "\<forall>n\<in>set (files pf entries).
      (\<exists>rel. relpath pf n = Inr rel) \<and> interrupted w n = None \<and>
      (\<exists>t. ocr_text pf cfg w n = Some t) \<and>
      (\<forall>t idx. document_error pf t idx (str_path pf n) = None)"
    using ocr_text_returns [of cfg pf w] by blast
  moreover from a have "iterdir w = Inr entries" by simp
  ultimately have "\<exists>out. main pf cfg w = Some out \<and>
    length (docs (final out)) = length (files pf entries) \<and>
    written out = [join nl (md_lines (final out))] \<and>
    output_md out = snd (write_text pf w (join nl (md_lines (final out)))) \<and>
    (raised out = None \<longleftrightarrow>
       fst (write_text pf w (join nl (md_lines (final out)))) = None \<and> print_error w = None)"
    using main_returns [of w entries pf cfg] by simp
  then obtain out where "main pf cfg w = Some out \<and>
    length (docs (final out)) = length (files pf entries) \<and>
    written out = [join nl (md_lines (final out))] \<and>
    output_md out = snd (write_text pf w (join nl (md_lines (final out)))) \<and>
    (raised out = None \<longleftrightarrow>
       fst (write_text pf w (join nl (md_lines (final out)))) = None \<and> print_error w = None)" ..
  then show "\<exists>out. main pf cfg w = Some out \<and>
         length (docs (final out)) = length (files pf entries) \<and>
         written out = [join nl (md_lines (final out))] \<and>
         (raised out = None \<longleftrightarrow>
            open_w w = None \<and> encodable (join nl (md_lines (final out))) \<and>
            write_fault w = None \<and> print_error w = None)"
    by (intro exI [of _ out]) (simp add: write_text_ok)
next
  assume "main pf cfg w = Some out \<and> iterdir w = Inr entries \<and> n \<in> set (files pf entries) \<and>
      interrupted w n = Some i"
  then have r: "raised out \<noteq> None \<and> written out = [] \<and> output_md out = Untouched"
    using main_obstacle [of pf cfg w out entries n _ i] by blast
  from r show "raised out \<noteq> None" by simp
  from r show "written out = []" by simp
  from r show "output_md out = Untouched" by simp
qed

theorem remote_exceptions_are_caught_witness:
  "azure_read_image demo_platform world_unreadable (lit ''a.png'') 30 =
     Some (Inl (LibraryError (lit ''[Errno 13] Permission denied'')), 0) \<and>
   azure_read_image demo_platform world_down (lit ''a.png'') 30 =
     Some (Inl (LibraryError (lit ''connection refused'')), 0) \<and>
   azure_read_image demo_platform world_bad_json (lit ''a.png'') 30 =
     Some (Inl (LibraryError (lit ''Expecting value: line 1 column 1 (char 0)'')), 1) \<and>
   ocr_text demo_platform cfg_both world_bad_json (lit ''a.png'') = Some (lit ''local text'') \<and>
   (\<exists>out. main demo_platform cfg_both world_bad_json = Some out \<and>
      length (docs (final out)) = 2 \<and> written out = [join nl (md_lines (final out))]) \<and>
   main demo_platform cfg_both world_interrupted = Some outcome_interrupted \<and>
   written outcome_interrupted = []"
proof -
  let ?n = "lit ''a.png''"
  let ?j = "LibraryError (lit ''Expecting value: line 1 column 1 (char 0)'')"
  note caught = remote_exceptions_are_caught [where pf = demo_platform and n = ?n and timeout = 30]
  have 1: "open_rb world_unreadable ?n = Some (LibraryError (lit ''[Errno 13] Permission denied''))"
    by (simp add: world_unreadable_def world_ok_def)
  have 2: "open_rb world_down ?n = None \<and>
      post world_down ?n = Inl (LibraryError (lit ''connection refused''))"
    by (simp add: world_down_def world_ok_def)
  have dl: "deadline world_bad_json ?n 30 = 30"
    by (simp add: deadline_def world_bad_json_def world_ok_def round_double_30)
  have 3: "open_rb world_bad_json ?n = None \<and> post world_bad_json ?n = Inr accepted \<and>
      status_code accepted = 202 \<and>
      operation_location accepted = Some (lit ''https://ocr.test/operations/1'') \<and>
      lit ''https://ocr.test/operations/1'' \<noteq> [] \<and>
      (\<forall>j<0. pending world_bad_json ?n (deadline world_bad_json ?n 30) j) \<and>
      clock world_bad_json ?n (Suc 0) < deadline world_bad_json ?n 30 \<and>
      get_json world_bad_json ?n 0 = Inl ?j"
    by (simp add: dl) (simp add: world_bad_json_def world_ok_def accepted_def lit_def)
  have 4: "READ_API cfg_both \<noteq> None \<and>
      azure_read_image demo_platform world_bad_json ?n 30 = Some (Inl ?j, 1)"
    by (simp add: READ_API_cfg_both world_bad_json_raises)
  have 5: "iterdir world_bad_json = Inr folder_ok \<and>
      (\<forall>n\<in>set (files demo_platform folder_ok).
         (\<exists>rel. relpath demo_platform n = Inr rel) \<and> interrupted world_bad_json n = None \<and>
         (\<exists>y. azure_read_image demo_platform world_bad_json n 30 = Some y) \<and>
         (\<forall>t idx. document_error demo_platform t idx (str_path demo_platform n) = None))"
    by (simp add: world_bad_json_raises) (simp add: world_bad_json_def world_ok_def demo_platform_def)
  have 6: "main demo_platform cfg_both world_interrupted = Some outcome_interrupted \<and>
      iterdir world_interrupted = Inr folder_ok \<and>
      lit ''a.png'' \<in> set (files demo_platform folder_ok) \<and>
      interrupted world_interrupted (lit ''a.png'') = Some KeyboardInterrupt"
    by (simp add: main_world_interrupted files_folder_ok)
      (simp add: world_interrupted_def world_ok_def)
  have a: "azure_read_image demo_platform world_unreadable ?n 30 =
     Some (Inl (LibraryError (lit ''[Errno 13] Permission denied'')), 0)"
    using caught [THEN conjunct1, rule_format, OF 1] .
  have b: "azure_read_image demo_platform world_down ?n 30 =
     Some (Inl (LibraryError (lit ''connection refused'')), 0)"
    using caught [THEN conjunct2, THEN conjunct1, rule_format, OF 2] .
  have c: "azure_read_image demo_platform world_bad_json ?n 30 = Some (Inl ?j, 1)"
    using caught [THEN conjunct2, THEN conjunct2, THEN conjunct1, rule_format, OF 3] by simp
  have d: "ocr_text demo_platform cfg_both world_bad_json ?n = Some (lit ''local text'')"
    using caught [THEN conjunct2, THEN conjunct2, THEN conjunct2, THEN conjunct1, rule_format, OF 4]
    by (simp add: local_ocr_world_bad_json) (simp add: cfg_both_def)
  have e: "\<exists>out. main demo_platform cfg_both world_bad_json = Some out \<and>
      length (docs (final out)) = 2 \<and> written out = [join nl (md_lines (final out))]"
    using caught [THEN conjunct2, THEN conjunct2, THEN conjunct2, THEN conjunct2, THEN conjunct1,
        rule_format, OF 5, of cfg_both]
    by (auto simp: files_folder_ok numeral_2_eq_2)
  have f: "raised outcome_interrupted \<noteq> None \<and> written outcome_interrupted = [] \<and>
      output_md outcome_interrupted = Untouched"
    using caught [THEN conjunct2, THEN conjunct2, THEN conjunct2, THEN conjunct2, THEN conjunct2,
        rule_format, OF 6] .
  from a b c d e f main_world_interrupted show ?thesis by blast
qed

text \<open>
  C9, as the spec has it, fails for an interrupt.  \<^verbatim>\<open>KeyboardInterrupt\<close> is raised in
  the call that runs when the user interrupts the program, here while the first file
  is with the remote backend, which is configured; it is not an instance of
  \<^verbatim>\<open>Exception\<close>, the handler does not catch it, and the run ends with it after the
  heading of the first page, with no page processed and nothing written.
\<close>

theorem interrupt_is_not_caught:
  "READ_API cfg_both \<noteq> None \<and>
   files demo_platform folder_ok = [lit ''a.png'', lit ''b.JPG''] \<and>
   interrupted world_interrupted (lit ''a.png'') = Some KeyboardInterrupt \<and>
   main demo_platform cfg_both world_interrupted = Some outcome_interrupted \<and>
   raised outcome_interrupted = Some (Interrupted KeyboardInterrupt) \<and>
   docs (final outcome_interrupted) = [] \<and>
   written outcome_interrupted = []"
proof -
  have "interrupted world_interrupted (lit ''a.png'') = Some KeyboardInterrupt"
    by (simp add: world_interrupted_def)
  moreover have "raised outcome_interrupted = Some (Interrupted KeyboardInterrupt)"
    and "docs (final outcome_interrupted) = []" and "written outcome_interrupted = []"
    by (simp_all add: outcome_interrupted_def)
  ultimately show ?thesis
    using READ_API_cfg_both files_folder_ok main_world_interrupted by simp
qed




end
